theory Spec2Isabelle
  imports Main
begin

section \<open>Values shared by every handler\<close>

text \<open>
  An ObjectId is a 12-byte value; it is modelled by the natural number it encodes, a number
  below \<open>16 ^ 24\<close>. An identifier reaches a handler, or sits in a document, in one of two
  forms. \<open>Str s\<close> is a string: what a route parameter, a query, a JSON body and a token
  carry, and what \<open>createBook\<close> stores as the category of a book. \<open>ObjId n\<close> is an ObjectId
  value: what the driver stores in \<open>_id\<close> fields and what the seed script stores as the
  category of a book. The two forms are different values, and so are two spellings of one
  hexadecimal string: a query for a string matches neither a stored ObjectId nor another
  spelling. An absent field is \<open>None\<close>.

  Prices, quantities and stocks are JavaScript numbers. The model takes them as integers, on
  which the arithmetic of the handlers (\<open>+\<close>, \<open>-\<close>, \<open>*\<close>, \<open><\<close>) is exact.
\<close>

type_synonym oid = nat

datatype idval = Str string | ObjId oid

text \<open>JavaScript truthiness of an identifier field: absent and the empty string are falsy.\<close>

fun truthy_id :: "idval option \<Rightarrow> bool" where
  "truthy_id None = False"
| "truthy_id (Some (Str s)) = (s \<noteq> [])"
| "truthy_id (Some (ObjId n)) = True"

text \<open>\<open>a || b\<close> on two identifier fields.\<close>

definition or_id :: "idval option \<Rightarrow> idval option \<Rightarrow> idval option" where
  "or_id a b = (if truthy_id a then a else b)"

text \<open>
  The HTTP status codes the handlers answer with. The specification names them
  InvalidArgument (400), Unauthorized (401), Forbidden (403), NotFound (404),
  Conflict (409) and Internal (500).
\<close>

datatype status = S400 | S401 | S403 | S404 | S409 | S500

abbreviation InvalidArgument :: status where "InvalidArgument \<equiv> S400"
abbreviation Unauthorized :: status where "Unauthorized \<equiv> S401"
abbreviation Forbidden :: status where "Forbidden \<equiv> S403"
abbreviation NotFound :: status where "NotFound \<equiv> S404"
abbreviation Conflict :: status where "Conflict \<equiv> S409"
abbreviation Internal :: status where "Internal \<equiv> S500"

text \<open>An error response: the status, the \<open>error\<close> string and, for a blocked category
  deletion only, the \<open>bookCount\<close> field.\<close>

record failure =
  code :: status
  error :: string
  bookCount :: "nat option"

definition fail :: "status \<Rightarrow> string \<Rightarrow> failure" where
  "fail st msg = \<lparr>code = st, error = msg, bookCount = None\<rparr>"

text \<open>
  What a handler reads from outside the stores: the clock (\<open>new Date()\<close>, in milliseconds,
  with the local calendar fields that \<open>getFullYear\<close>, \<open>getMonth\<close> and \<open>getDate\<close> return)
  and the identifier the driver gives the next inserted document.
\<close>

record env =
  now :: nat
  fullYear :: nat
  month0 :: nat
  dayOfMonth :: nat
  insertedId :: oid

subsection \<open>Decimal and hexadecimal rendering\<close>

definition digit_char :: "nat \<Rightarrow> char" where
  "digit_char d = (''0123456789abcdef'' ! d)"

fun show_nat :: "nat \<Rightarrow> string" where
  "show_nat n = (if n < 10 then [digit_char n] else show_nat (n div 10) @ [digit_char (n mod 10)])"

declare show_nat.simps [simp del]

definition show_int :: "int \<Rightarrow> string" where
  "show_int i = (if i < 0 then CHR ''-'' # show_nat (nat (- i)) else show_nat (nat i))"

text \<open>\<open>s.padStart(n, '0')\<close>.\<close>

definition padStart0 :: "nat \<Rightarrow> string \<Rightarrow> string" where
  "padStart0 n s = replicate (n - length s) CHR ''0'' @ s"

fun hex_digits :: "nat \<Rightarrow> nat \<Rightarrow> string" where
  "hex_digits 0 n = []"
| "hex_digits (Suc k) n = hex_digits k (n div 16) @ [digit_char (n mod 16)]"

subsection \<open>Identifiers\<close>

text \<open>The value of a hexadecimal digit, in lower or upper case.\<close>

definition hex_value :: "char \<Rightarrow> nat option" where
  "hex_value c =
     (let k = (of_char c :: nat) in
      if 48 \<le> k \<and> k \<le> 57 then Some (k - 48)
      else if 97 \<le> k \<and> k \<le> 102 then Some (k - 87)
      else if 65 \<le> k \<and> k \<le> 70 then Some (k - 55)
      else None)"

fun parse_hex :: "string \<Rightarrow> nat \<Rightarrow> nat option" where
  "parse_hex [] acc = Some acc"
| "parse_hex (c # cs) acc =
     (case hex_value c of None \<Rightarrow> None | Some v \<Rightarrow> parse_hex cs (16 * acc + v))"

text \<open>
  \<open>new ObjectId(x)\<close>: a string of 24 hexadecimal digits of either case is parsed, an
  ObjectId is taken as it is, and \<open>None\<close> stands for the exception that the constructor
  throws on any other string. (The constructor also takes integers and, in older drivers,
  strings of 12 characters; identifiers of these forms are outside the model.)
\<close>

fun new_ObjectId :: "idval \<Rightarrow> oid option" where
  "new_ObjectId (Str s) = (if length s = 24 then parse_hex s 0 else None)"
| "new_ObjectId (ObjId n) = Some n"

text \<open>\<open>ObjectId.isValid(x)\<close>: whether the constructor takes \<open>x\<close>.\<close>

definition ObjectId_isValid :: "idval \<Rightarrow> bool" where
  "ObjectId_isValid v = (new_ObjectId v \<noteq> None)"

text \<open>\<open>Oid n\<close> is the string that \<open>toString\<close> and the JSON serialisation yield for the
  ObjectId \<open>n\<close>: its 24 hexadecimal digits in lower case.\<close>

definition Oid :: "oid \<Rightarrow> idval" where
  "Oid n = Str (hex_digits 24 n)"

text \<open>The string an identifier is interpolated as.\<close>

fun id_string :: "idval \<Rightarrow> string" where
  "id_string (Str s) = s"
| "id_string (ObjId n) = hex_digits 24 n"

subsection \<open>Collections\<close>

text \<open>
  A collection is the list of its documents in insertion order. \<open>findOne\<close> returns the
  first match, \<open>updateOne\<close> and \<open>deleteOne\<close> touch the first match only, and
  \<open>updateMany\<close> touches every match.
\<close>

fun findOne :: "('a \<Rightarrow> bool) \<Rightarrow> 'a list \<Rightarrow> 'a option" where
  "findOne p [] = None"
| "findOne p (x # xs) = (if p x then Some x else findOne p xs)"

fun updateOne :: "('a \<Rightarrow> bool) \<Rightarrow> ('a \<Rightarrow> 'a) \<Rightarrow> 'a list \<Rightarrow> 'a list" where
  "updateOne p f [] = []"
| "updateOne p f (x # xs) = (if p x then f x # xs else x # updateOne p f xs)"

definition updateMany :: "('a \<Rightarrow> bool) \<Rightarrow> ('a \<Rightarrow> 'a) \<Rightarrow> 'a list \<Rightarrow> 'a list" where
  "updateMany p f xs = map (\<lambda>x. if p x then f x else x) xs"

fun deleteOne :: "('a \<Rightarrow> bool) \<Rightarrow> 'a list \<Rightarrow> 'a list" where
  "deleteOne p [] = []"
| "deleteOne p (x # xs) = (if p x then xs else x # deleteOne p xs)"

definition countDocuments :: "('a \<Rightarrow> bool) \<Rightarrow> 'a list \<Rightarrow> nat" where
  "countDocuments p xs = length (filter p xs)"

text \<open>The \<open>matchedCount\<close> that \<open>updateOne\<close> reports.\<close>

definition matchedCount :: "('a \<Rightarrow> bool) \<Rightarrow> 'a list \<Rightarrow> nat" where
  "matchedCount p xs = (case findOne p xs of None \<Rightarrow> 0 | Some x \<Rightarrow> 1)"

text \<open>\<open>Array.prototype.findIndex\<close>: \<open>None\<close> is the result \<open>-1\<close>.\<close>

fun findIndex :: "('a \<Rightarrow> bool) \<Rightarrow> 'a list \<Rightarrow> nat option" where
  "findIndex p [] = None"
| "findIndex p (x # xs) = (if p x then Some 0 else map_option Suc (findIndex p xs))"

section \<open>The data model\<close>

text \<open>
  A cart line as \<open>POST /cart/add\<close> stores it, with the two fields that
  \<open>createOrderFromCart\<close> looks for (\<open>bookId\<close> and \<open>_id\<close>) and that may be absent.
\<close>

record cartline =
  cl_title :: string
  cl_author :: string
  cl_price :: int
  cl_description :: "string option"
  cl_quantity :: int
  cl_addedAt :: nat
  cl_bookId :: "idval option"
  cl_id :: "idval option"

record user =
  u_id :: oid
  u_name :: string
  u_email :: string
  u_password :: string
  u_role :: "string option"
  u_cart :: "cartline list"
  u_createdAt :: nat

text \<open>\<open>Book\<close> is the object of the class constructor, \<open>book\<close> the stored document.\<close>

record Book =
  b_title :: string
  b_author :: string
  b_description :: string
  b_price :: int
  b_category :: "idval option"
  b_stock :: int
  b_id :: oid

record book = Book +
  b_createdAt :: nat
  b_updatedAt :: nat

definition new_Book :: "book \<Rightarrow> Book" where
  "new_Book b = Book.truncate b"

record category =
  cat_id :: oid
  cat_name :: string
  cat_description :: string
  cat_isActive :: bool
  cat_createdAt :: nat
  cat_updatedAt :: nat

record orderline =
  ol_bookId :: oid
  ol_title :: string
  ol_author :: string
  ol_price :: int
  ol_quantity :: int
  ol_subtotal :: int

record shipping =
  address :: string
  city :: string

record history_entry =
  h_status :: string
  h_notes :: string
  h_timestamp :: nat

text \<open>
  \<open>Order\<close> is the object the class constructor builds (eight fields); \<open>order_doc\<close> is the
  stored document, which has four more. \<open>new Order(doc)\<close> keeps the eight fields of a
  document, with \<open>status || 'pending'\<close> for the status.
\<close>

record Order =
  o_userId :: oid
  o_items :: "orderline list"
  o_totalAmount :: int
  o_status :: string
  o_shippingAddress :: shipping
  o_paymentMethod :: string
  o_notes :: string
  o_id :: oid

record order_doc = Order +
  o_orderNumber :: string
  o_statusHistory :: "history_entry list"
  o_createdAt :: nat
  o_updatedAt :: nat

definition new_Order :: "order_doc \<Rightarrow> Order" where
  "new_Order d =
     (Order.truncate d)\<lparr>o_status := (if o_status d = [] then ''pending'' else o_status d)\<rparr>"

record db =
  users :: "user list"
  books :: "book list"
  categories :: "category list"
  orders :: "order_doc list"

text \<open>The claims of a verified token, as \<open>req.user\<close> holds them.\<close>

record claims =
  c_userId :: idval
  c_email :: string
  c_role :: "string option"

section \<open>The cart endpoints of \<open>routes/user.js\<close>\<close>

text \<open>The handlers run after \<open>authenticateToken\<close> and take the claims it leaves in
  \<open>req.user\<close>. \<open>User.findById\<close> and \<open>User.updateById\<close>: \<open>None\<close> is the exception of
  \<open>new ObjectId\<close>, which the handler's \<open>catch\<close> turns into status 500.\<close>

definition User_findById :: "db \<Rightarrow> idval \<Rightarrow> user option option" where
  "User_findById d i = map_option (\<lambda>n. findOne (\<lambda>u. u_id u = n) (users d)) (new_ObjectId i)"

definition User_updateCart :: "db \<Rightarrow> idval \<Rightarrow> cartline list \<Rightarrow> db option" where
  "User_updateCart d i c =
     map_option (\<lambda>n. d\<lparr>users := updateOne (\<lambda>u. u_id u = n) (\<lambda>u. u\<lparr>u_cart := c\<rparr>) (users d)\<rparr>)
       (new_ObjectId i)"

record cart_reply =
  message :: string
  cart :: "cartline list"

record add_body =
  ab_title :: string
  ab_author :: string
  ab_price :: int
  ab_description :: "string option"

definition internal_error :: failure where
  "internal_error = fail S500 ''Internal server error''"

text \<open>\<open>POST /cart/add\<close>. An absent title or author is the empty string, an absent price
  is 0: each takes the branch of its falsy value.\<close>

definition cart_add :: "env \<Rightarrow> db \<Rightarrow> claims \<Rightarrow> add_body \<Rightarrow> db \<times> (failure + cart_reply)" where
  "cart_add e d usr b =
    (if ab_title b = [] \<or> ab_author b = [] \<or> ab_price b = 0
     then (d, Inl (fail S400 ''Title, author, and price are required''))
     else case User_findById d (c_userId usr) of
       None \<Rightarrow> (d, Inl internal_error)
     | Some None \<Rightarrow> (d, Inl (fail S404 ''User not found''))
     | Some (Some u) \<Rightarrow>
        (let c = u_cart u;
             c' = (case findIndex (\<lambda>item. cl_title item = ab_title b) c of
                     Some i \<Rightarrow> c[i := (c ! i)\<lparr>cl_quantity := cl_quantity (c ! i) + 1\<rparr>]
                   | None \<Rightarrow> c @ [\<lparr>cl_title = ab_title b, cl_author = ab_author b,
                                   cl_price = ab_price b, cl_description = ab_description b,
                                   cl_quantity = 1, cl_addedAt = now e,
                                   cl_bookId = None, cl_id = None\<rparr>])
         in case User_updateCart d (c_userId usr) c' of
              None \<Rightarrow> (d, Inl internal_error)
            | Some d' \<Rightarrow> (d', Inr \<lparr>message = ''Item added to cart'', cart = c'\<rparr>)))"

text \<open>\<open>PUT /cart/update\<close>.\<close>

definition cart_update :: "db \<Rightarrow> claims \<Rightarrow> string \<Rightarrow> int \<Rightarrow> db \<times> (failure + cart_reply)" where
  "cart_update d usr title quantity =
    (if title = [] \<or> quantity < 0
     then (d, Inl (fail S400 ''Valid title and quantity are required''))
     else case User_findById d (c_userId usr) of
       None \<Rightarrow> (d, Inl internal_error)
     | Some None \<Rightarrow> (d, Inl (fail S404 ''User not found''))
     | Some (Some u) \<Rightarrow>
        (let c = u_cart u in
         case findIndex (\<lambda>item. cl_title item = title) c of
           None \<Rightarrow> (d, Inl (fail S404 ''Item not found in cart''))
         | Some i \<Rightarrow>
            (let c' = (if quantity = 0 then take i c @ drop (Suc i) c
                       else c[i := (c ! i)\<lparr>cl_quantity := quantity\<rparr>])
             in case User_updateCart d (c_userId usr) c' of
                  None \<Rightarrow> (d, Inl internal_error)
                | Some d' \<Rightarrow> (d', Inr \<lparr>message = ''Cart updated successfully'', cart = c'\<rparr>))))"

text \<open>\<open>DELETE /cart/remove\<close>.\<close>

definition cart_remove :: "db \<Rightarrow> claims \<Rightarrow> string \<Rightarrow> db \<times> (failure + cart_reply)" where
  "cart_remove d usr title =
    (if title = [] then (d, Inl (fail S400 ''Title is required''))
     else case User_findById d (c_userId usr) of
       None \<Rightarrow> (d, Inl internal_error)
     | Some None \<Rightarrow> (d, Inl (fail S404 ''User not found''))
     | Some (Some u) \<Rightarrow>
        (let c' = filter (\<lambda>item. cl_title item \<noteq> title) (u_cart u)
         in case User_updateCart d (c_userId usr) c' of
              None \<Rightarrow> (d, Inl internal_error)
            | Some d' \<Rightarrow> (d', Inr \<lparr>message = ''Item removed from cart'', cart = c'\<rparr>)))"

text \<open>\<open>POST /cart/clear\<close>.\<close>

definition cart_clear :: "db \<Rightarrow> claims \<Rightarrow> db \<times> (failure + cart_reply)" where
  "cart_clear d usr =
    (case User_updateCart d (c_userId usr) [] of
       None \<Rightarrow> (d, Inl internal_error)
     | Some d' \<Rightarrow> (d', Inr \<lparr>message = ''Cart cleared successfully'', cart = []\<rparr>))"

text \<open>The invariant of the cart subsystem: no user's cart has two lines with one title.\<close>

definition cart_inv :: "db \<Rightarrow> bool" where
  "cart_inv d = list_all (\<lambda>u. distinct (map cl_title (u_cart u))) (users d)"


section \<open>Tokens and the access checks\<close>

text \<open>
  \<open>jwt.sign\<close> and \<open>jwt.verify\<close> as a capability: a token carries its claims, whether it was
  signed with the server's secret, and its expiry in seconds; \<open>expiresIn: "24h"\<close> is
  86400 seconds after the issue time.
\<close>

record token =
  payload :: claims
  genuine :: bool
  expiry :: nat

definition jwt_sign :: "env \<Rightarrow> claims \<Rightarrow> token" where
  "jwt_sign e c = \<lparr>payload = c, genuine = True, expiry = now e div 1000 + 86400\<rparr>"

definition jwt_verify :: "env \<Rightarrow> token \<Rightarrow> claims option" where
  "jwt_verify e t = (if genuine t \<and> now e div 1000 < expiry t then Some (payload t) else None)"

text \<open>\<open>authenticateToken\<close> of \<open>routes/orders.js\<close>; \<open>None\<close> is a request without a bearer
  token.\<close>

definition authenticateToken :: "env \<Rightarrow> token option \<Rightarrow> failure + claims" where
  "authenticateToken e hdr =
    (case hdr of
       None \<Rightarrow> Inl (fail S401 ''Access token required'')
     | Some t \<Rightarrow>
        (case jwt_verify e t of
           None \<Rightarrow> Inl (fail S403 ''Invalid or expired token'')
         | Some usr \<Rightarrow> Inr usr))"

text \<open>\<open>requireAdmin\<close> as the routers of orders, books and categories define it: the role
  is the one of \<open>req.user\<close>, that is, of the token's claims.\<close>

definition requireAdmin :: "claims \<Rightarrow> failure + claims" where
  "requireAdmin usr =
    (if c_role usr \<noteq> Some ''admin'' then Inl (fail S403 ''Admin access required'')
     else Inr usr)"

text \<open>\<open>requireAdmin\<close> of \<open>middleware/auth.js\<close>: the role is read from the user store.\<close>

definition middleware_requireAdmin :: "db \<Rightarrow> claims \<Rightarrow> failure + claims" where
  "middleware_requireAdmin d usr =
    (case new_ObjectId (c_userId usr) of
       None \<Rightarrow> Inl (fail S500 ''Failed to verify admin status'')
     | Some n \<Rightarrow>
        (case findOne (\<lambda>u. u_id u = n) (users d) of
           None \<Rightarrow> Inl (fail S403 ''Admin access required'')
         | Some u \<Rightarrow>
            if u_role u \<noteq> Some ''admin'' then Inl (fail S403 ''Admin access required'')
            else Inr (usr\<lparr>c_role := u_role u\<rparr>)))"

section \<open>Registration and login\<close>

definition lower_char :: "char \<Rightarrow> char" where
  "lower_char c = (let n = (of_char c :: nat) in if 65 \<le> n \<and> n \<le> 90 then char_of (n + 32) else c)"

definition toLowerCase :: "string \<Rightarrow> string" where
  "toLowerCase s = map lower_char s"

record auth_reply =
  ar_message :: string
  ar_id :: oid
  ar_name :: string
  ar_email :: string
  ar_cart :: "cartline list option"
  ar_token :: token

text \<open>\<open>POST /register\<close>. The password hash is a capability (\<open>bcrypt.hash\<close>), passed as
  \<open>hash\<close>. Absent fields are empty strings.\<close>

definition register ::
  "(string \<Rightarrow> string) \<Rightarrow> env \<Rightarrow> db \<Rightarrow> string \<Rightarrow> string \<Rightarrow> string \<Rightarrow> db \<times> (failure + auth_reply)" where
  "register hash e d name email password =
    (if name = [] \<or> email = [] \<or> password = []
     then (d, Inl (fail S400 ''Name, email, and password are required''))
     else if length password < 6
     then (d, Inl (fail S400 ''Password must be at least 6 characters long''))
     else case findOne (\<lambda>u. u_email u = email) (users d) of
       Some existing \<Rightarrow> (d, Inl (fail S409 ''User with this email already exists''))
     | None \<Rightarrow>
        (let u = \<lparr>u_id = insertedId e, u_name = name, u_email = toLowerCase email,
                  u_password = hash password, u_role = Some ''user'', u_cart = [],
                  u_createdAt = now e\<rparr>;
             t = jwt_sign e \<lparr>c_userId = Oid (u_id u), c_email = u_email u, c_role = None\<rparr>
         in (d\<lparr>users := users d @ [u]\<rparr>,
             Inr \<lparr>ar_message = ''User registered successfully'', ar_id = u_id u,
                  ar_name = u_name u, ar_email = u_email u, ar_cart = None, ar_token = t\<rparr>)))"

text \<open>\<open>POST /login\<close>; \<open>compare\<close> is \<open>bcrypt.compare\<close>.\<close>

definition login ::
  "(string \<Rightarrow> string \<Rightarrow> bool) \<Rightarrow> env \<Rightarrow> db \<Rightarrow> string \<Rightarrow> string \<Rightarrow> db \<times> (failure + auth_reply)" where
  "login compare e d email password =
    (if email = [] \<or> password = []
     then (d, Inl (fail S400 ''Email and password are required''))
     else case findOne (\<lambda>u. u_email u = toLowerCase email) (users d) of
       None \<Rightarrow> (d, Inl (fail S401 ''Invalid email or password''))
     | Some u \<Rightarrow>
        if \<not> compare password (u_password u)
        then (d, Inl (fail S401 ''Invalid email or password''))
        else
          (let t = jwt_sign e \<lparr>c_userId = Oid (u_id u), c_email = u_email u, c_role = None\<rparr>
           in (d, Inr \<lparr>ar_message = ''Login successful'', ar_id = u_id u, ar_name = u_name u,
                       ar_email = u_email u, ar_cart = Some (u_cart u), ar_token = t\<rparr>)))"


section \<open>The order engine of \<open>controllers/orderController.js\<close>\<close>

text \<open>A request item; an absent quantity is 0, which takes the same branch.\<close>

record item =
  bookId :: "idval option"
  quantity :: int

record order_body =
  items :: "item list option"
  shippingAddress :: "shipping option"
  paymentMethod :: string
  order_notes :: string

record 'a reply =
  r_message :: string
  r_data :: 'a

definition stock_message :: "book \<Rightarrow> int \<Rightarrow> string" where
  "stock_message b q =
     ''Insufficient stock for '' @ [CHR 0x22] @ b_title b @ [CHR 0x22] @ ''. Available: '' @
     show_int (b_stock b) @ '', Requested: '' @ show_int q"

text \<open>
  The validation loop of \<open>createOrder\<close>, with its two accumulators \<open>totalAmount\<close> and
  \<open>validatedItems\<close>. It returns at the first item that fails.
\<close>

fun validateItems ::
  "book list \<Rightarrow> item list \<Rightarrow> int \<Rightarrow> orderline list \<Rightarrow> failure + (int \<times> orderline list)" where
  "validateItems bs [] totalAmount validatedItems = Inr (totalAmount, validatedItems)"
| "validateItems bs (it # rest) totalAmount validatedItems =
    (case bookId it of
       None \<Rightarrow> Inl (fail S400 ''Each item must have a valid bookId and quantity'')
     | Some raw \<Rightarrow>
        if \<not> truthy_id (Some raw) \<or> quantity it = 0 \<or> quantity it \<le> 0
        then Inl (fail S400 ''Each item must have a valid bookId and quantity'')
        else
          (case new_ObjectId raw of
             None \<Rightarrow> Inl (fail S500 ''Failed to create order'')
           | Some n \<Rightarrow>
              (case findOne (\<lambda>b. b_id b = n) bs of
                 None \<Rightarrow> Inl (fail S404 (''Book with ID '' @ id_string raw @ '' not found''))
               | Some b \<Rightarrow>
                  if b_stock b < quantity it
                  then Inl (fail S400 (stock_message b (quantity it)))
                  else
                    (let itemTotal = b_price b * quantity it
                     in validateItems bs rest (totalAmount + itemTotal)
                          (validatedItems @
                            [\<lparr>ol_bookId = b_id b, ol_title = b_title b, ol_author = b_author b,
                              ol_price = b_price b, ol_quantity = quantity it,
                              ol_subtotal = itemTotal\<rparr>])))))"

definition generateOrderNumber :: "env \<Rightarrow> db \<Rightarrow> string" where
  "generateOrderNumber e d =
     ''ORD-'' @ show_nat (fullYear e) @ padStart0 2 (show_nat (month0 e + 1)) @
     padStart0 2 (show_nat (dayOfMonth e)) @ ''-'' @
     padStart0 4 (show_nat (countDocuments (\<lambda>x. True) (orders d) + 1))"

text \<open>\<open>Order.create\<close>: one clock reading stands for the calls of \<open>new Date()\<close> of a request.\<close>

definition Order_create ::
  "env \<Rightarrow> db \<Rightarrow> oid \<Rightarrow> orderline list \<Rightarrow> int \<Rightarrow> shipping \<Rightarrow> string \<Rightarrow> string \<Rightarrow> string \<Rightarrow>
   history_entry list \<Rightarrow> db \<times> Order" where
  "Order_create e d uid its amount ship pay nts st hist =
    (let doc = \<lparr>o_userId = uid, o_items = its, o_totalAmount = amount,
                o_status = (if st = [] then ''pending'' else st),
                o_shippingAddress = ship, o_paymentMethod = pay, o_notes = nts,
                o_id = insertedId e, o_orderNumber = generateOrderNumber e d,
                o_statusHistory = hist, o_createdAt = now e, o_updatedAt = now e\<rparr>
     in (d\<lparr>orders := orders d @ [doc]\<rparr>, new_Order doc))"

text \<open>The stock loop: one \<open>$inc\<close> by \<open>-quantity\<close> per validated line.\<close>

fun decrementStock :: "book list \<Rightarrow> orderline list \<Rightarrow> book list" where
  "decrementStock bs [] = bs"
| "decrementStock bs (l # ls) =
     decrementStock
       (updateOne (\<lambda>b. b_id b = ol_bookId l) (\<lambda>b. b\<lparr>b_stock := b_stock b + (- ol_quantity l)\<rparr>) bs)
       ls"

definition shipping_required :: failure where
  "shipping_required = fail S400 ''Shipping address with address and city is required''"

definition createOrder :: "env \<Rightarrow> db \<Rightarrow> claims \<Rightarrow> order_body \<Rightarrow> db \<times> (failure + Order reply)" where
  "createOrder e d usr body =
    (case items body of
       None \<Rightarrow> (d, Inl (fail S400 ''Order items are required''))
     | Some its \<Rightarrow>
        if its = [] then (d, Inl (fail S400 ''Order items are required''))
        else
          (case shippingAddress body of
             None \<Rightarrow> (d, Inl shipping_required)
           | Some ship \<Rightarrow>
              if address ship = [] \<or> city ship = [] then (d, Inl shipping_required)
              else if paymentMethod body = []
              then (d, Inl (fail S400 ''Payment method is required''))
              else
                (case validateItems (books d) its 0 [] of
                   Inl f \<Rightarrow> (d, Inl f)
                 | Inr (totalAmount, validatedItems) \<Rightarrow>
                    (case new_ObjectId (c_userId usr) of
                       None \<Rightarrow> (d, Inl (fail S500 ''Failed to create order''))
                     | Some uid \<Rightarrow>
                        (let (d1, order) =
                               Order_create e d uid validatedItems totalAmount ship
                                 (paymentMethod body) (order_notes body) ''pending''
                                 [\<lparr>h_status = ''pending'', h_notes = ''Order created'',
                                   h_timestamp = now e\<rparr>];
                             d2 = d1\<lparr>books := decrementStock (books d1) validatedItems\<rparr>;
                             d3 = d2\<lparr>users := updateOne (\<lambda>u. u_id u = uid)
                                                 (\<lambda>u. u\<lparr>u_cart := []\<rparr>) (users d2)\<rparr>
                         in (d3, Inr \<lparr>r_message = ''Order created successfully'',
                                      r_data = order\<rparr>))))))"

text \<open>\<open>createOrderFromCart\<close>: each cart line becomes an item whose \<open>bookId\<close> is
  \<open>cartItem.bookId || cartItem._id\<close>.\<close>

definition createOrderFromCart ::
  "env \<Rightarrow> db \<Rightarrow> claims \<Rightarrow> shipping option \<Rightarrow> string \<Rightarrow> string \<Rightarrow> db \<times> (failure + Order reply)" where
  "createOrderFromCart e d usr ship pay nts =
    (case new_ObjectId (c_userId usr) of
       None \<Rightarrow> (d, Inl (fail S500 ''Failed to create order from cart''))
     | Some uid \<Rightarrow>
        (case findOne (\<lambda>u. u_id u = uid) (users d) of
           None \<Rightarrow> (d, Inl (fail S400 ''Cart is empty''))
         | Some userData \<Rightarrow>
            if u_cart userData = [] then (d, Inl (fail S400 ''Cart is empty''))
            else
              (let its = map (\<lambda>cartItem. \<lparr>bookId = or_id (cl_bookId cartItem) (cl_id cartItem),
                                           quantity = cl_quantity cartItem\<rparr>) (u_cart userData)
               in createOrder e d usr
                    \<lparr>items = Some its, shippingAddress = ship, paymentMethod = pay,
                     order_notes = nts\<rparr>)))"

subsection \<open>Listing\<close>

record order_filter =
  f_userId :: "oid option"
  f_status :: "string option"

definition matches :: "order_filter \<Rightarrow> order_doc \<Rightarrow> bool" where
  "matches f x =
     ((case f_userId f of None \<Rightarrow> True | Some u \<Rightarrow> o_userId x = u) \<and>
      (case f_status f of None \<Rightarrow> True | Some s \<Rightarrow> o_status x = s))"

record pagination =
  pg_page :: nat
  pg_limit :: nat
  pg_total :: nat
  pg_pages :: "nat option"

text \<open>
  \<open>Order.findAll\<close>, newest first. A limit of 0 is no limit for the driver, and a negative
  skip (page 0) makes it throw, which is \<open>None\<close>; \<open>Math.ceil(total / 0)\<close> is not a
  number of pages, which is \<open>None\<close> in \<open>pg_pages\<close>.
\<close>

definition Order_findAll ::
  "db \<Rightarrow> order_filter \<Rightarrow> nat \<Rightarrow> nat \<Rightarrow> (Order list \<times> pagination) option" where
  "Order_findAll d f page limit =
    (if page = 0 \<and> limit \<noteq> 0 then None
     else
       (let found = rev (sort_key o_createdAt (filter (matches f) (orders d)));
            skipped = drop ((page - 1) * limit) found;
            taken = (if limit = 0 then skipped else take limit skipped);
            count = countDocuments (matches f) (orders d)
        in Some (map new_Order taken,
                 \<lparr>pg_page = page, pg_limit = limit, pg_total = count,
                  pg_pages = (if limit = 0 then None else Some ((count + limit - 1) div limit))\<rparr>)))"

text \<open>The query of a listing; \<open>page\<close> and \<open>limit\<close> are the parsed numbers, absent ones
  default to 1 and 10.\<close>

record orders_query =
  q_page :: "nat option"
  q_limit :: "nat option"
  q_status :: "string option"
  q_userId :: "idval option"

definition getAllOrders :: "db \<Rightarrow> claims \<Rightarrow> orders_query \<Rightarrow> failure + (Order list \<times> pagination)" where
  "getAllOrders d usr q =
    (let page = (case q_page q of None \<Rightarrow> 1 | Some n \<Rightarrow> n);
         limit = (case q_limit q of None \<Rightarrow> 10 | Some n \<Rightarrow> n);
         uid_filter =
           (if c_role usr \<noteq> Some ''admin'' \<and> \<not> truthy_id (q_userId q)
            then map_option Some (new_ObjectId (c_userId usr))
            else (case q_userId q of
                    None \<Rightarrow> Some None
                  | Some raw \<Rightarrow>
                     if truthy_id (Some raw) then map_option Some (new_ObjectId raw)
                     else Some None));
         status_filter = (case q_status q of
                            None \<Rightarrow> None
                          | Some s \<Rightarrow> if s = [] then None else Some s)
     in case uid_filter of
          None \<Rightarrow> Inl (fail S500 ''Failed to fetch orders'')
        | Some fu \<Rightarrow>
           (case Order_findAll d \<lparr>f_userId = fu, f_status = status_filter\<rparr> page limit of
              None \<Rightarrow> Inl (fail S500 ''Failed to fetch orders'')
            | Some r \<Rightarrow> Inr r))"

definition getUserOrders ::
  "db \<Rightarrow> claims \<Rightarrow> idval \<Rightarrow> nat option \<Rightarrow> nat option \<Rightarrow> failure + (Order list \<times> pagination)" where
  "getUserOrders d usr userId qpage qlimit =
    (let page = (case qpage of None \<Rightarrow> 1 | Some n \<Rightarrow> n);
         limit = (case qlimit of None \<Rightarrow> 10 | Some n \<Rightarrow> n)
     in if c_role usr \<noteq> Some ''admin'' then Inl (fail S403 ''Access denied'')
        else if \<not> ObjectId_isValid userId then Inl (fail S400 ''Invalid user ID'')
        else
          (case new_ObjectId userId of
             None \<Rightarrow> Inl (fail S500 ''Failed to fetch user orders'')
           | Some u \<Rightarrow>
              (case Order_findAll d \<lparr>f_userId = Some u, f_status = None\<rparr> page limit of
                 None \<Rightarrow> Inl (fail S500 ''Failed to fetch user orders'')
               | Some r \<Rightarrow> Inr r)))"


subsection \<open>Status changes and updates\<close>

definition Order_findById :: "db \<Rightarrow> idval \<Rightarrow> order_doc option option" where
  "Order_findById d i = map_option (\<lambda>n. findOne (\<lambda>x. o_id x = n) (orders d)) (new_ObjectId i)"

text \<open>\<open>Order.updateStatus\<close>: sets the status and pushes one history entry.\<close>

definition Order_updateStatus :: "env \<Rightarrow> db \<Rightarrow> oid \<Rightarrow> string \<Rightarrow> string \<Rightarrow> db" where
  "Order_updateStatus e d n st nts =
     d\<lparr>orders := updateOne (\<lambda>x. o_id x = n)
         (\<lambda>x. x\<lparr>o_status := st, o_updatedAt := now e,
                 o_statusHistory := o_statusHistory x @
                   [\<lparr>h_status = st, h_notes = nts, h_timestamp = now e\<rparr>]\<rparr>)
         (orders d)\<rparr>"

definition validStatuses :: "string list" where
  "validStatuses = [''pending'', ''confirmed'', ''processing'', ''shipped'', ''delivered'', ''cancelled'']"

fun join :: "string \<Rightarrow> string list \<Rightarrow> string" where
  "join sep [] = []"
| "join sep [x] = x"
| "join sep (x # y # ys) = x @ sep @ join sep (y # ys)"

text \<open>\<open>updateOrderStatus\<close>; an absent status is the empty string, which is not a valid
  status either. The \<open>data\<close> of the answer is what the second \<open>findById\<close> returns, an
  order or \<open>null\<close>.\<close>

definition updateOrderStatus ::
  "env \<Rightarrow> db \<Rightarrow> claims \<Rightarrow> idval \<Rightarrow> string \<Rightarrow> string \<Rightarrow>
   db \<times> (failure + Order option reply)" where
  "updateOrderStatus e d usr i st nts =
    (let failed = fail S500 ''Failed to update order status'' in
     if \<not> ObjectId_isValid i then (d, Inl (fail S400 ''Invalid order ID''))
     else if st \<notin> set validStatuses
     then (d, Inl (fail S400 (''Invalid status. Valid statuses: '' @ join '', '' validStatuses)))
     else
       (case Order_findById d i of
          None \<Rightarrow> (d, Inl failed)
        | Some None \<Rightarrow> (d, Inl (fail S404 ''Order not found''))
        | Some (Some order) \<Rightarrow>
           if c_role usr \<noteq> Some ''admin'' \<and> Oid (o_userId order) \<noteq> c_userId usr
           then (d, Inl (fail S403 ''Access denied''))
           else if c_role usr \<noteq> Some ''admin'' \<and> st \<noteq> ''cancelled'' \<and> o_status order \<noteq> ''pending''
           then (d, Inl (fail S403 ''You can only cancel pending orders''))
           else
             (let d' = Order_updateStatus e d (o_id order) st nts
              in case Order_findById d' i of
                   None \<Rightarrow> (d', Inl failed)
                 | Some updatedOrder \<Rightarrow>
                     (d', Inr \<lparr>r_message = ''Order status updated successfully'',
                              r_data = map_option new_Order updatedOrder\<rparr>))))"

text \<open>The keys of an update body that are fields of the order model; an absent key is
  \<open>None\<close>. \<open>userId\<close>, \<open>orderNumber\<close>, \<open>createdAt\<close> and \<open>_id\<close> are deleted from the body.\<close>

record order_update =
  up_items :: "orderline list option"
  up_totalAmount :: "int option"
  up_status :: "string option"
  up_shippingAddress :: "shipping option"
  up_paymentMethod :: "string option"
  up_notes :: "string option"
  up_statusHistory :: "history_entry list option"

definition Order_updateById :: "env \<Rightarrow> db \<Rightarrow> oid \<Rightarrow> order_update \<Rightarrow> db" where
  "Order_updateById e d n up =
     d\<lparr>orders := updateOne (\<lambda>x. o_id x = n)
         (\<lambda>x. x\<lparr>o_items := (case up_items up of None \<Rightarrow> o_items x | Some v \<Rightarrow> v),
                 o_totalAmount := (case up_totalAmount up of None \<Rightarrow> o_totalAmount x | Some v \<Rightarrow> v),
                 o_status := (case up_status up of None \<Rightarrow> o_status x | Some v \<Rightarrow> v),
                 o_shippingAddress :=
                   (case up_shippingAddress up of None \<Rightarrow> o_shippingAddress x | Some v \<Rightarrow> v),
                 o_paymentMethod :=
                   (case up_paymentMethod up of None \<Rightarrow> o_paymentMethod x | Some v \<Rightarrow> v),
                 o_notes := (case up_notes up of None \<Rightarrow> o_notes x | Some v \<Rightarrow> v),
                 o_statusHistory :=
                   (case up_statusHistory up of None \<Rightarrow> o_statusHistory x | Some v \<Rightarrow> v),
                 o_updatedAt := now e\<rparr>)
         (orders d)\<rparr>"

definition updateOrder ::
  "env \<Rightarrow> db \<Rightarrow> claims \<Rightarrow> idval \<Rightarrow> order_update \<Rightarrow>
   db \<times> (failure + Order option reply)" where
  "updateOrder e d usr i up =
    (let failed = fail S500 ''Failed to update order'' in
     if \<not> ObjectId_isValid i then (d, Inl (fail S400 ''Invalid order ID''))
     else
       (case Order_findById d i of
          None \<Rightarrow> (d, Inl failed)
        | Some None \<Rightarrow> (d, Inl (fail S404 ''Order not found''))
        | Some (Some order) \<Rightarrow>
           if c_role usr \<noteq> Some ''admin''
           then (d, Inl (fail S403 ''Only administrators can update order details''))
           else
             (let d' = Order_updateById e d (o_id order) up
              in if matchedCount (\<lambda>x. o_id x = o_id order) (orders d) = 0
                 then (d', Inl (fail S404 ''Order not found''))
                 else
                   (case Order_findById d' i of
                      None \<Rightarrow> (d', Inl failed)
                    | Some updatedOrder \<Rightarrow>
                        (d', Inr \<lparr>r_message = ''Order updated successfully'',
                                 r_data = map_option new_Order updatedOrder\<rparr>)))))"

subsection \<open>The admin-gated routes of \<open>routes/orders.js\<close>\<close>

text \<open>\<open>GET /user/:userId\<close> and \<open>PUT /:id\<close>: \<open>authenticateToken\<close>, then the router's
  \<open>requireAdmin\<close>, then the controller.\<close>

definition route_getUserOrders ::
  "env \<Rightarrow> db \<Rightarrow> token option \<Rightarrow> idval \<Rightarrow> nat option \<Rightarrow> nat option \<Rightarrow>
   failure + (Order list \<times> pagination)" where
  "route_getUserOrders e d hdr userId qpage qlimit =
    (case authenticateToken e hdr of
       Inl f \<Rightarrow> Inl f
     | Inr usr \<Rightarrow>
        (case requireAdmin usr of
           Inl f \<Rightarrow> Inl f
         | Inr usr' \<Rightarrow> getUserOrders d usr' userId qpage qlimit))"

definition route_updateOrder ::
  "env \<Rightarrow> db \<Rightarrow> token option \<Rightarrow> idval \<Rightarrow> order_update \<Rightarrow>
   db \<times> (failure + Order option reply)" where
  "route_updateOrder e d hdr i up =
    (case authenticateToken e hdr of
       Inl f \<Rightarrow> (d, Inl f)
     | Inr usr \<Rightarrow>
        (case requireAdmin usr of
           Inl f \<Rightarrow> (d, Inl f)
         | Inr usr' \<Rightarrow> updateOrder e d usr' i up))"

section \<open>The catalog: \<open>deleteCategory\<close> and \<open>updateBook\<close>\<close>

text \<open>\<open>Category.countBooks\<close> queries the books for the identifier of the request as it
  came, a string: it matches the books that store this very string as their category, and
  neither a stored ObjectId nor another spelling. \<open>deleteCategory\<close> passes the same string
  to the \<open>updateMany\<close> filter, and the parsed ObjectId to \<open>deleteOne\<close>. The identifier of
  a route is always a string, \<open>Str s\<close>.\<close>

definition countBooks :: "db \<Rightarrow> idval \<Rightarrow> nat" where
  "countBooks d i = countDocuments (\<lambda>b. b_category b = Some i) (books d)"

definition deleteCategory :: "db \<Rightarrow> idval \<Rightarrow> string option \<Rightarrow> db \<times> (failure + string)" where
  "deleteCategory d i force =
    (if \<not> ObjectId_isValid i then (d, Inl (fail S400 ''Invalid category ID''))
     else
       (let bookCount = countBooks d i in
        if bookCount > 0 \<and> force \<noteq> Some ''true''
        then (d, Inl \<lparr>code = S400,
                      error = ''Cannot delete category with '' @ show_nat bookCount @
                              '' books. Use force=true to delete anyway.'',
                      bookCount = Some bookCount\<rparr>)
        else
          (case new_ObjectId i of
             None \<Rightarrow> (d, Inl (fail S500 ''Failed to delete category''))
           | Some n \<Rightarrow>
              (let remaining = deleteOne (\<lambda>c. cat_id c = n) (categories d);
                   deletedCount = length (categories d) - length remaining
               in if deletedCount = 0 then (d, Inl (fail S404 ''Category not found''))
                  else
                    (let d1 = d\<lparr>categories := remaining\<rparr>;
                         d2 = (if force = Some ''true'' \<and> bookCount > 0
                               then d1\<lparr>books := updateMany (\<lambda>b. b_category b = Some i)
                                                   (\<lambda>b. b\<lparr>b_category := None\<rparr>) (books d1)\<rparr>
                               else d1)
                     in (d2, Inr ''Category deleted successfully''))))))"

text \<open>The keys of a book update body; an absent key is \<open>None\<close>.\<close>

record book_update =
  ub_title :: "string option"
  ub_author :: "string option"
  ub_description :: "string option"
  ub_price :: "int option"
  ub_category :: "idval option"
  ub_stock :: "int option"

definition Book_updateById :: "env \<Rightarrow> db \<Rightarrow> oid \<Rightarrow> book_update \<Rightarrow> db" where
  "Book_updateById e d n up =
     d\<lparr>books := updateOne (\<lambda>b. b_id b = n)
         (\<lambda>b. b\<lparr>b_title := (case ub_title up of None \<Rightarrow> b_title b | Some v \<Rightarrow> v),
                 b_author := (case ub_author up of None \<Rightarrow> b_author b | Some v \<Rightarrow> v),
                 b_description := (case ub_description up of None \<Rightarrow> b_description b | Some v \<Rightarrow> v),
                 b_price := (case ub_price up of None \<Rightarrow> b_price b | Some v \<Rightarrow> v),
                 b_category := (case ub_category up of None \<Rightarrow> b_category b | Some v \<Rightarrow> Some v),
                 b_stock := (case ub_stock up of None \<Rightarrow> b_stock b | Some v \<Rightarrow> v),
                 b_updatedAt := now e\<rparr>)
         (books d)\<rparr>"

definition Book_findById :: "db \<Rightarrow> idval \<Rightarrow> book option option" where
  "Book_findById d i = map_option (\<lambda>n. findOne (\<lambda>b. b_id b = n) (books d)) (new_ObjectId i)"

definition updateBook ::
  "env \<Rightarrow> db \<Rightarrow> idval \<Rightarrow> book_update \<Rightarrow> db \<times> (failure + Book option reply)" where
  "updateBook e d i up =
    (let failed = fail S500 ''Failed to update book'' in
     if \<not> ObjectId_isValid i then (d, Inl (fail S400 ''Invalid book ID''))
     else
       (case Book_findById d i of
          None \<Rightarrow> (d, Inl failed)
        | Some None \<Rightarrow> (d, Inl (fail S404 ''Book not found''))
        | Some (Some existingBook) \<Rightarrow>
           if (case ub_price up of None \<Rightarrow> False | Some v \<Rightarrow> v \<noteq> 0 \<and> v \<le> 0)
           then (d, Inl (fail S400 ''Price must be greater than 0''))
           else
             (let d' = Book_updateById e d (b_id existingBook) up
              in if matchedCount (\<lambda>b. b_id b = b_id existingBook) (books d) = 0
                 then (d', Inl (fail S404 ''Book not found''))
                 else
                   (case Book_findById d' i of
                      None \<Rightarrow> (d', Inl failed)
                    | Some updatedBook \<Rightarrow>
                        (d', Inr \<lparr>r_message = ''Book updated successfully'',
                                 r_data = map_option new_Book updatedBook\<rparr>)))))"

section \<open>Notions used in the statements\<close>

text \<open>The book that an item names: the ObjectId that its \<open>bookId\<close> is parsed to.\<close>

definition item_book :: "item \<Rightarrow> oid option" where
  "item_book it = (case bookId it of None \<Rightarrow> None | Some raw \<Rightarrow> new_ObjectId raw)"

text \<open>The quantity a request orders of book \<open>n\<close>: the sum over the items that name it.\<close>

definition requestedQuantity :: "oid \<Rightarrow> item list \<Rightarrow> int" where
  "requestedQuantity n its =
     sum_list (map quantity (filter (\<lambda>it. item_book it = Some n) its))"

text \<open>An order line is the snapshot of a request item against a book store.\<close>

definition line_of :: "book list \<Rightarrow> item \<Rightarrow> orderline \<Rightarrow> bool" where
  "line_of bs it l =
     (\<exists>b. findOne (\<lambda>x. b_id x = ol_bookId l) bs = Some b \<and> item_book it = Some (ol_bookId l) \<and>
          0 < quantity it \<and> quantity it \<le> b_stock b \<and>
          ol_title l = b_title b \<and> ol_author l = b_author b \<and>
          ol_quantity l = quantity it \<and> ol_price l = b_price b \<and>
          ol_subtotal l = b_price b * quantity it)"

text \<open>The document that a successful \<open>createOrder\<close> inserts.\<close>

definition order_document ::
  "env \<Rightarrow> db \<Rightarrow> oid \<Rightarrow> orderline list \<Rightarrow> int \<Rightarrow> order_body \<Rightarrow> shipping \<Rightarrow> order_doc" where
  "order_document e d uid ls t body ship =
     \<lparr>o_userId = uid, o_items = ls, o_totalAmount = t, o_status = ''pending'',
      o_shippingAddress = ship, o_paymentMethod = paymentMethod body, o_notes = order_notes body,
      o_id = insertedId e, o_orderNumber = generateOrderNumber e d,
      o_statusHistory = [\<lparr>h_status = ''pending'', h_notes = ''Order created'', h_timestamp = now e\<rparr>],
      o_createdAt = now e, o_updatedAt = now e\<rparr>"

text \<open>
  A category field refers to the category \<open>n\<close> when it holds the ObjectId \<open>n\<close> or a string
  that denotes it. The dependent books of a category are the books whose category field
  refers to it.
\<close>

definition refers_to :: "idval option \<Rightarrow> oid \<Rightarrow> bool" where
  "refers_to c n = (case c of None \<Rightarrow> False | Some v \<Rightarrow> new_ObjectId v = Some n)"

definition dependentBooks :: "db \<Rightarrow> oid \<Rightarrow> book list" where
  "dependentBooks d n = filter (\<lambda>b. refers_to (b_category b) n) (books d)"

section \<open>A sample store\<close>

definition sample_env :: env where
  "sample_env = \<lparr>now = 1700000000000, fullYear = 2023, month0 = 10, dayOfMonth = 14,
                 insertedId = 100\<rparr>"

definition sample_hash :: "string \<Rightarrow> string" where
  "sample_hash p = CHR ''#'' # p"

definition sample_compare :: "string \<Rightarrow> string \<Rightarrow> bool" where
  "sample_compare p h = (h = CHR ''#'' # p)"

definition alice :: user where
  "alice = \<lparr>u_id = 1, u_name = ''Alice'', u_email = ''alice@example.org'',
            u_password = ''#alice-pw'', u_role = Some ''user'', u_cart = [], u_createdAt = 10\<rparr>"

definition bob :: user where
  "bob = \<lparr>u_id = 2, u_name = ''Bob'', u_email = ''bob@example.org'', u_password = ''#bob-pw'',
          u_role = Some ''user'', u_cart = [], u_createdAt = 20\<rparr>"

definition carol :: user where
  "carol = \<lparr>u_id = 3, u_name = ''Carol'', u_email = ''carol@example.org'',
            u_password = ''#carol-pw'', u_role = Some ''admin'', u_cart = [], u_createdAt = 30\<rparr>"

definition dune :: book where
  "dune = \<lparr>b_title = ''Dune'', b_author = ''Frank Herbert'', b_description = [], b_price = 450,
           b_category = Some (Oid 20), b_stock = 5, b_id = 10, b_createdAt = 40, b_updatedAt = 40\<rparr>"

definition emma :: book where
  "emma = \<lparr>b_title = ''Emma'', b_author = ''Jane Austen'', b_description = [], b_price = 300,
           b_category = None, b_stock = 2, b_id = 11, b_createdAt = 41, b_updatedAt = 41\<rparr>"

definition fantasy :: category where
  "fantasy = \<lparr>cat_id = 20, cat_name = ''Fantasy'', cat_description = [], cat_isActive = True,
              cat_createdAt = 35, cat_updatedAt = 35\<rparr>"

definition home :: shipping where
  "home = \<lparr>address = ''1 Main St'', city = ''Lagos''\<rparr>"

definition dune_line :: orderline where
  "dune_line = \<lparr>ol_bookId = 10, ol_title = ''Dune'', ol_author = ''Frank Herbert'',
                ol_price = 450, ol_quantity = 1, ol_subtotal = 450\<rparr>"

definition emma_line :: orderline where
  "emma_line = \<lparr>ol_bookId = 11, ol_title = ''Emma'', ol_author = ''Jane Austen'',
                ol_price = 300, ol_quantity = 1, ol_subtotal = 300\<rparr>"

text \<open>Bob's order has been shipped; Alice's is still pending.\<close>

definition bob_order :: order_doc where
  "bob_order = \<lparr>o_userId = 2, o_items = [dune_line], o_totalAmount = 450, o_status = ''shipped'',
       o_shippingAddress = home, o_paymentMethod = ''card'', o_notes = [], o_id = 50,
       o_orderNumber = ''ORD-20231113-0001'',
       o_statusHistory = [\<lparr>h_status = ''pending'', h_notes = ''Order created'', h_timestamp = 60\<rparr>,
                          \<lparr>h_status = ''shipped'', h_notes = [], h_timestamp = 70\<rparr>],
       o_createdAt = 60, o_updatedAt = 70\<rparr>"

definition alice_order :: order_doc where
  "alice_order = \<lparr>o_userId = 1, o_items = [emma_line], o_totalAmount = 300, o_status = ''pending'',
       o_shippingAddress = home, o_paymentMethod = ''card'', o_notes = [], o_id = 51,
       o_orderNumber = ''ORD-20231113-0002'',
       o_statusHistory = [\<lparr>h_status = ''pending'', h_notes = ''Order created'', h_timestamp = 80\<rparr>],
       o_createdAt = 80, o_updatedAt = 80\<rparr>"

definition sample_db :: db where
  "sample_db = \<lparr>users = [alice, bob, carol], books = [dune, emma], categories = [fantasy],
                orders = [bob_order, alice_order]\<rparr>"

text \<open>The same store when Dune was inserted by the seed script, which stores the category
  of a book as an ObjectId.\<close>

definition seeded_db :: db where
  "seeded_db = sample_db\<lparr>books := [dune\<lparr>b_category := Some (ObjId 20)\<rparr>, emma]\<rparr>"

text \<open>A second category, whose identifier has a letter among its hexadecimal digits
  (26 is \<open>1a\<close>), with one book that was created through the API.\<close>

definition horror :: category where
  "horror = \<lparr>cat_id = 26, cat_name = ''Horror'', cat_description = [], cat_isActive = True,
             cat_createdAt = 36, cat_updatedAt = 36\<rparr>"

definition carrie :: book where
  "carrie = \<lparr>b_title = ''Carrie'', b_author = ''Stephen King'', b_description = [],
             b_price = 350, b_category = Some (Oid 26), b_stock = 4, b_id = 12,
             b_createdAt = 42, b_updatedAt = 42\<rparr>"

definition horror_db :: db where
  "horror_db = sample_db\<lparr>books := [dune, emma, carrie], categories := [fantasy, horror]\<rparr>"

text \<open>The claims of the tokens that \<open>login\<close> signs for Alice, Bob and Carol.\<close>

definition alice_claims :: claims where
  "alice_claims = \<lparr>c_userId = Oid 1, c_email = ''alice@example.org'', c_role = None\<rparr>"

definition bob_claims :: claims where
  "bob_claims = \<lparr>c_userId = Oid 2, c_email = ''bob@example.org'', c_role = None\<rparr>"

definition carol_claims :: claims where
  "carol_claims = \<lparr>c_userId = Oid 3, c_email = ''carol@example.org'', c_role = None\<rparr>"

definition two_dunes :: order_body where
  "two_dunes = \<lparr>items = Some [\<lparr>bookId = Some (Oid 10), quantity = 2\<rparr>],
                shippingAddress = Some home, paymentMethod = ''card'', order_notes = []\<rparr>"

definition six_dunes :: order_body where
  "six_dunes = \<lparr>items = Some [\<lparr>bookId = Some (Oid 10), quantity = 6\<rparr>],
                shippingAddress = Some home, paymentMethod = ''card'', order_notes = []\<rparr>"

text \<open>A request whose first item names no book and whose second asks for more copies of
  Dune than are in stock.\<close>

definition ghost_then_six_dunes :: order_body where
  "ghost_then_six_dunes =
     \<lparr>items = Some [\<lparr>bookId = Some (Oid 99), quantity = 1\<rparr>,
                    \<lparr>bookId = Some (Oid 10), quantity = 6\<rparr>],
      shippingAddress = Some home, paymentMethod = ''card'', order_notes = []\<rparr>"

text \<open>The body with which a client adds Dune to a cart, and a line that such a request left
  in a cart when the price was 400.\<close>

definition add_dune :: add_body where
  "add_dune = \<lparr>ab_title = ''Dune'', ab_author = ''Frank Herbert'', ab_price = 450,
               ab_description = None\<rparr>"

definition dune_cartline :: cartline where
  "dune_cartline = \<lparr>cl_title = ''Dune'', cl_author = ''Frank Herbert'', cl_price = 400,
       cl_description = None, cl_quantity = 1, cl_addedAt = 90, cl_bookId = None, cl_id = None\<rparr>"

definition cart_db :: db where
  "cart_db = sample_db\<lparr>users := [alice\<lparr>u_cart := [dune_cartline]\<rparr>, bob, carol]\<rparr>"

text \<open>The store after Alice has sent \<open>POST /cart/add\<close> for Dune twice.\<close>

definition two_dunes_in_cart :: db where
  "two_dunes_in_cart =
     fst (cart_add sample_env (fst (cart_add sample_env sample_db alice_claims add_dune))
            alice_claims add_dune)"

text \<open>An update body that sets the total of an order to 0.\<close>

definition zero_total :: order_update where
  "zero_total = \<lparr>up_items = None, up_totalAmount = Some 0, up_status = None,
                 up_shippingAddress = None, up_paymentMethod = None, up_notes = None,
                 up_statusHistory = None\<rparr>"

text \<open>A listing query of a user who asks for Bob's orders.\<close>

definition bobs_orders :: orders_query where
  "bobs_orders = \<lparr>q_page = None, q_limit = None, q_status = None, q_userId = Some (Oid 2)\<rparr>"

lemmas sample_defs = sample_env_def sample_hash_def sample_compare_def alice_def bob_def
  carol_def dune_def emma_def fantasy_def home_def dune_line_def emma_line_def bob_order_def
  alice_order_def sample_db_def alice_claims_def bob_claims_def carol_claims_def two_dunes_def
  six_dunes_def ghost_then_six_dunes_def add_dune_def dune_cartline_def cart_db_def
  seeded_db_def

section \<open>Facts about collections\<close>

lemma findOne_SomeD: "findOne p xs = Some x \<Longrightarrow> x \<in> set xs \<and> p x"
  by (induction xs) (auto split: if_splits)

lemma findOne_updateOne_id:
  assumes "\<And>x. key (f x) = key x"
  shows "findOne (\<lambda>x. key x = n) (updateOne (\<lambda>x. key x = m) f xs) =
         (if n = m then map_option f (findOne (\<lambda>x. key x = n) xs)
          else findOne (\<lambda>x. key x = n) xs)"
  using assms by (induction xs) auto

lemma list_all_updateOne:
  "list_all P xs \<Longrightarrow> (\<And>x. P x \<Longrightarrow> p x \<Longrightarrow> P (f x)) \<Longrightarrow> list_all P (updateOne p f xs)"
  by (induction xs) auto

lemma findIndex_SomeD: "findIndex p xs = Some i \<Longrightarrow> i < length xs \<and> p (xs ! i)"
  by (induction xs arbitrary: i) (auto split: if_splits)

lemma findIndex_NoneD: "findIndex p xs = None \<Longrightarrow> x \<in> set xs \<Longrightarrow> \<not> p x"
  by (induction xs) (auto split: if_splits)

lemma findIndex_ex: "x \<in> set xs \<Longrightarrow> p x \<Longrightarrow> \<exists>i. findIndex p xs = Some i"
  by (induction xs) auto

lemma length_deleteOne: "findOne p xs = Some x \<Longrightarrow> Suc (length (deleteOne p xs)) = length xs"
  by (induction xs) (auto split: if_splits)

lemma findOne_None_iff: "findOne p xs = None \<longleftrightarrow> (\<forall>x \<in> set xs. \<not> p x)"
  by (induction xs) auto

lemma findOne_deleteOne:
  "distinct (map key xs) \<Longrightarrow> findOne (\<lambda>x. key x = n) (deleteOne (\<lambda>x. key x = n) xs) = None"
proof (induction xs)
  case Nil
  then show ?case by simp
next
  case (Cons a xs)
  show ?case
  proof (cases "key a = n")
    case True
    with Cons.prems have "\<forall>x \<in> set xs. key x \<noteq> n" by (auto simp: image_iff)
    with True show ?thesis by (simp add: findOne_None_iff)
  next
    case False
    with Cons show ?thesis by simp
  qed
qed

subsection \<open>Identifiers\<close>

lemma hex_value_digit_char: "d < 16 \<Longrightarrow> hex_value (digit_char d) = Some d"
proof -
  assume "d < 16"
  moreover have "list_all (\<lambda>d. hex_value (digit_char d) = Some d) [0..<16]"
    by code_simp
  ultimately show ?thesis by (simp add: list_all_iff)
qed

lemma parse_hex_append:
  "parse_hex (xs @ ys) acc =
     (case parse_hex xs acc of None \<Rightarrow> None | Some a \<Rightarrow> parse_hex ys a)"
  by (induction xs arbitrary: acc) (auto split: option.splits)

lemma length_hex_digits: "length (hex_digits k n) = k"
  by (induction k arbitrary: n) auto

lemma parse_hex_digits: "parse_hex (hex_digits k n) acc = Some (acc * 16 ^ k + n mod 16 ^ k)"
proof (induction k arbitrary: n)
  case 0
  then show ?case by simp
next
  case (Suc k)
  have "n mod (16 * 16 ^ k) = 16 * (n div 16 mod 16 ^ k) + n mod 16"
    by (rule mod_mult2_eq)
  then show ?case
    by (simp add: parse_hex_append Suc.IH hex_value_digit_char algebra_simps)
qed

lemma new_ObjectId_Oid [simp]: "n < 16 ^ 24 \<Longrightarrow> new_ObjectId (Oid n) = Some n"
  by (simp add: Oid_def length_hex_digits parse_hex_digits)

lemma ObjectId_isValid_Oid [simp]: "n < 16 ^ 24 \<Longrightarrow> ObjectId_isValid (Oid n)"
  by (simp add: ObjectId_isValid_def)

lemma truthy_id_Oid [simp]: "truthy_id (Some (Oid n))"
  using length_hex_digits[of 24 n] by (auto simp: Oid_def)

lemma id_string_Oid [simp]: "id_string (Oid n) = hex_digits 24 n"
  by (simp add: Oid_def)

lemma new_ObjectId_truthy: "new_ObjectId raw = Some n \<Longrightarrow> truthy_id (Some raw)"
  by (cases raw) (auto split: if_splits)

lemma new_Order_fields:
  "o_totalAmount (new_Order x) = o_totalAmount x" "o_items (new_Order x) = o_items x"
  "o_id (new_Order x) = o_id x" "o_userId (new_Order x) = o_userId x"
  by (simp_all add: new_Order_def Order.defs)

section \<open>The order engine\<close>

subsection \<open>The validation loop\<close>

lemma validateItems_step:
  assumes "validateItems bs (it # rest) t acc = Inr res"
  obtains l where "line_of bs it l"
    "validateItems bs rest (t + ol_subtotal l) (acc @ [l]) = Inr res"
proof -
  from assms obtain raw where raw: "bookId it = Some raw"
    by (auto split: option.splits)
  with assms have q: "0 < quantity it" and tr: "truthy_id (Some raw)"
    by (auto split: if_splits)
  with assms raw obtain n where n: "new_ObjectId raw = Some n"
    by (auto split: option.splits if_splits)
  with assms raw q tr obtain b where b: "findOne (\<lambda>x. b_id x = n) bs = Some b"
    by (auto split: option.splits if_splits)
  have bid: "b_id b = n" using findOne_SomeD[OF b] by simp
  from assms raw q tr n b have st: "quantity it \<le> b_stock b"
    by (auto split: if_splits)
  let ?l = "\<lparr>ol_bookId = b_id b, ol_title = b_title b, ol_author = b_author b,
              ol_price = b_price b, ol_quantity = quantity it,
              ol_subtotal = b_price b * quantity it\<rparr>"
  have "line_of bs it ?l"
    using raw n b q st bid by (auto simp: line_of_def item_book_def)
  moreover have "validateItems bs rest (t + ol_subtotal ?l) (acc @ [?l]) = Inr res"
    using assms raw q tr n b st by (simp add: Let_def)
  ultimately show ?thesis using that by blast
qed

lemma validateItems_lines:
  "validateItems bs its t acc = Inr (t', ls) \<Longrightarrow>
   \<exists>new. ls = acc @ new \<and> t' = t + sum_list (map ol_subtotal new) \<and>
         list_all2 (line_of bs) its new"
proof (induction its arbitrary: t acc)
  case Nil
  then show ?case by simp
next
  case (Cons it rest)
  from Cons.prems obtain l where l: "line_of bs it l"
    and r: "validateItems bs rest (t + ol_subtotal l) (acc @ [l]) = Inr (t', ls)"
    by (rule validateItems_step)
  from Cons.IH[OF r] obtain new where "ls = (acc @ [l]) @ new"
    "t' = t + ol_subtotal l + sum_list (map ol_subtotal new)" "list_all2 (line_of bs) rest new"
    by blast
  then show ?case using l by (intro exI[of _ "l # new"]) simp
qed

lemma validateItems_append:
  "validateItems bs (pre @ rest) t acc =
     (case validateItems bs pre t acc of
        Inl f \<Rightarrow> Inl f
      | Inr (t', acc') \<Rightarrow> validateItems bs rest t' acc')"
  by (induction pre arbitrary: t acc) (auto simp: Let_def split: option.splits)

lemma requested_lines:
  "list_all2 (line_of bs) its ls \<Longrightarrow>
   sum_list (map ol_quantity (filter (\<lambda>l. ol_bookId l = n) ls)) = requestedQuantity n its"
  by (induction rule: list_all2_induct) (auto simp: requestedQuantity_def line_of_def)

subsection \<open>The stock loop\<close>

lemma decrementStock_stock:
  "map_option b_stock (findOne (\<lambda>b. b_id b = n) (decrementStock bs ls)) =
   map_option (\<lambda>b. b_stock b - sum_list (map ol_quantity (filter (\<lambda>l. ol_bookId l = n) ls)))
     (findOne (\<lambda>b. b_id b = n) bs)"
proof (induction ls arbitrary: bs)
  case Nil
  then show ?case by (simp add: option.map_ident)
next
  case (Cons l ls)
  show ?case
    by (simp add: Cons.IH findOne_updateOne_id[where key=b_id] option.map_comp comp_def
        diff_diff_eq)
qed

subsection \<open>The shape of a successful and of a failed \<open>createOrder\<close>\<close>

lemma createOrder_success:
  assumes "createOrder e d usr body = (d', Inr r)"
  obtains its ship t ls uid where
    "items body = Some its" "shippingAddress body = Some ship"
    "validateItems (books d) its 0 [] = Inr (t, ls)"
    "new_ObjectId (c_userId usr) = Some uid"
    "d' = \<lparr>users = updateOne (\<lambda>u. u_id u = uid) (\<lambda>u. u\<lparr>u_cart := []\<rparr>) (users d),
           books = decrementStock (books d) ls, categories = categories d,
           orders = orders d @ [order_document e d uid ls t body ship]\<rparr>"
    "r_data r = new_Order (order_document e d uid ls t body ship)"
proof -
  from assms obtain its where its: "items body = Some its" "its \<noteq> []"
    by (auto simp: createOrder_def split: option.splits if_splits)
  with assms obtain ship where ship: "shippingAddress body = Some ship"
      "address ship \<noteq> []" "city ship \<noteq> []" "paymentMethod body \<noteq> []"
    by (auto simp: createOrder_def split: option.splits if_splits)
  with assms its obtain t ls where v: "validateItems (books d) its 0 [] = Inr (t, ls)"
    by (auto simp: createOrder_def split: sum.splits)
  with assms its ship obtain uid where uid: "new_ObjectId (c_userId usr) = Some uid"
    by (auto simp: createOrder_def split: option.splits)
  have "createOrder e d usr body =
     (\<lparr>users = updateOne (\<lambda>u. u_id u = uid) (\<lambda>u. u\<lparr>u_cart := []\<rparr>) (users d),
           books = decrementStock (books d) ls, categories = categories d,
           orders = orders d @ [order_document e d uid ls t body ship]\<rparr>,
      Inr \<lparr>r_message = ''Order created successfully'',
           r_data = new_Order (order_document e d uid ls t body ship)\<rparr>)"
    using its ship v uid
    by (simp add: createOrder_def Order_create_def order_document_def Let_def)
  with assms have
    "d' = \<lparr>users = updateOne (\<lambda>u. u_id u = uid) (\<lambda>u. u\<lparr>u_cart := []\<rparr>) (users d),
           books = decrementStock (books d) ls, categories = categories d,
           orders = orders d @ [order_document e d uid ls t body ship]\<rparr>"
    and "r_data r = new_Order (order_document e d uid ls t body ship)"
    by auto
  then show ?thesis by (rule that[OF its(1) ship(1) v uid])
qed

lemma createOrder_failure:
  assumes "validateItems (books d) its 0 [] = Inl f" and "items body = Some its"
  shows "\<exists>f'. createOrder e d usr body = (d, Inl f')"
  using assms by (simp add: createOrder_def split: option.splits)

lemma updateBook_orders: "orders (fst (updateBook e d i up)) = orders d"
  by (simp add: updateBook_def Book_updateById_def Let_def split: option.splits)

lemma map_updateOne_same:
  "(\<And>x. g (f x) = g x) \<Longrightarrow> map g (updateOne p f xs) = map g xs"
  by (induction xs) auto

lemma updateOrderStatus_totals:
  "map o_totalAmount (orders (fst (updateOrderStatus e d usr i st nts))) =
   map o_totalAmount (orders d)"
  by (simp add: updateOrderStatus_def Order_updateStatus_def Let_def map_updateOne_same
      split: option.splits)

lemma createOrder_appends:
  "\<exists>new. orders (fst (createOrder e d usr body)) = orders d @ new"
proof (cases "snd (createOrder e d usr body)")
  case (Inl f)
  then have "fst (createOrder e d usr body) = d"
    by (auto simp: createOrder_def Order_create_def Let_def
        split: option.splits if_splits sum.splits prod.splits)
  then show ?thesis by simp
next
  case (Inr r)
  then have "createOrder e d usr body = (fst (createOrder e d usr body), Inr r)"
    by (metis prod.collapse)
  then show ?thesis by (rule createOrder_success) simp
qed

lemma two_dunes_run:
  "createOrder sample_env sample_db alice_claims two_dunes =
     (sample_db\<lparr>books := [dune\<lparr>b_stock := 3\<rparr>, emma],
        orders := [bob_order, alice_order, order_document sample_env sample_db 1
           [\<lparr>ol_bookId = 10, ol_title = ''Dune'', ol_author = ''Frank Herbert'',
                   ol_price = 450, ol_quantity = 2, ol_subtotal = 900\<rparr>] 900 two_dunes home]\<rparr>,
      Inr \<lparr>r_message = ''Order created successfully'',
           r_data = new_Order (order_document sample_env sample_db 1
           [\<lparr>ol_bookId = 10, ol_title = ''Dune'', ol_author = ''Frank Herbert'',
                   ol_price = 450, ol_quantity = 2, ol_subtotal = 900\<rparr>] 900 two_dunes home)\<rparr>)"
  by (simp add: createOrder_def Order_create_def order_document_def Let_def sample_defs)

subsection \<open>Totals\<close>

text \<open>
  Claim C1. When \<open>createOrder\<close> succeeds, the returned order's \<open>totalAmount\<close> is the sum
  of the subtotals of its lines; the lines follow the request items one by one, and each
  subtotal is the price that the referenced book has in the store at the time of the call
  times the requested quantity. The inserted document carries the same total. Afterwards a
  change of a book (its price included) leaves every stored order as it is, a status change
  leaves every stored total as it is, and a further order is appended to the stored orders:
  no handler computes a total again. (Only the administrators' \<open>updateOrder\<close> can store
  another total, the one its request body holds.)
\<close>

theorem createOrder_total:
  assumes "createOrder e d usr body = (d', Inr r)"
  shows "o_totalAmount (r_data r) = sum_list (map ol_subtotal (o_items (r_data r))) \<and>
         (\<exists>its. items body = Some its \<and>
            list_all2 (\<lambda>it l. \<exists>b. item_book it = Some (ol_bookId l) \<and>
                  findOne (\<lambda>x. b_id x = ol_bookId l) (books d) = Some b \<and>
                  ol_quantity l = quantity it \<and> ol_price l = b_price b \<and>
                  ol_subtotal l = b_price b * quantity it)
              its (o_items (r_data r))) \<and>
         (\<exists>doc. orders d' = orders d @ [doc] \<and> new_Order doc = r_data r) \<and>
         (\<forall>e' i up. orders (fst (updateBook e' d' i up)) = orders d') \<and>
         (\<forall>e' usr' i st nts.
            map o_totalAmount (orders (fst (updateOrderStatus e' d' usr' i st nts))) =
            map o_totalAmount (orders d')) \<and>
         (\<forall>e' usr' body'. \<exists>new. orders (fst (createOrder e' d' usr' body')) = orders d' @ new)"
proof -
  from assms obtain its ship t ls uid where
    its: "items body = Some its" and
    v: "validateItems (books d) its 0 [] = Inr (t, ls)" and
    d': "d' = \<lparr>users = updateOne (\<lambda>u. u_id u = uid) (\<lambda>u. u\<lparr>u_cart := []\<rparr>) (users d),
           books = decrementStock (books d) ls, categories = categories d,
           orders = orders d @ [order_document e d uid ls t body ship]\<rparr>" and
    r: "r_data r = new_Order (order_document e d uid ls t body ship)"
    by (rule createOrder_success)
  from validateItems_lines[OF v] have t: "t = sum_list (map ol_subtotal ls)"
    and l: "list_all2 (line_of (books d)) its ls" by auto
  have lines: "o_items (r_data r) = ls" and amount: "o_totalAmount (r_data r) = t"
    by (simp_all add: r new_Order_fields order_document_def)
  have "list_all2 (\<lambda>it l. \<exists>b. item_book it = Some (ol_bookId l) \<and>
                  findOne (\<lambda>x. b_id x = ol_bookId l) (books d) = Some b \<and>
                  ol_quantity l = quantity it \<and> ol_price l = b_price b \<and>
                  ol_subtotal l = b_price b * quantity it) its ls"
    by (rule list_all2_mono[OF l]) (auto simp: line_of_def)
  moreover have "\<exists>doc. orders d' = orders d @ [doc] \<and> new_Order doc = r_data r"
    by (simp add: d' r)
  ultimately show ?thesis
    using its
    by (simp add: lines amount t updateBook_orders updateOrderStatus_totals createOrder_appends)
qed

text \<open>Alice orders two copies of Dune at 450: one line of 900, total 900.\<close>

theorem createOrder_total_witness:
  "\<not> isl (snd (createOrder sample_env sample_db alice_claims two_dunes)) \<and>
   o_totalAmount (r_data (projr (snd (createOrder sample_env sample_db alice_claims two_dunes)))) = 900 \<and>
   map ol_subtotal
     (o_items (r_data (projr (snd (createOrder sample_env sample_db alice_claims two_dunes))))) = [900]"
  using createOrder_total[OF two_dunes_run]
  by (simp add: two_dunes_run new_Order_fields order_document_def)

subsection \<open>Stock and cart\<close>

text \<open>
  Claim C2. When \<open>createOrder\<close> succeeds, every item of the request names a book of the
  store, the stock of every book is its former stock minus the quantity the request orders of
  that book (nothing for a book the request does not name), and the cart of the ordering user
  is empty.
\<close>

theorem createOrder_stock_and_cart:
  assumes "createOrder e d usr body = (d', Inr r)"
  shows "\<exists>its uid. items body = Some its \<and> new_ObjectId (c_userId usr) = Some uid \<and>
           (\<forall>n. map_option b_stock (findOne (\<lambda>b. b_id b = n) (books d')) =
                map_option (\<lambda>b. b_stock b - requestedQuantity n its)
                  (findOne (\<lambda>b. b_id b = n) (books d))) \<and>
           (\<forall>it \<in> set its. \<exists>n b. item_book it = Some n \<and>
                findOne (\<lambda>b. b_id b = n) (books d) = Some b) \<and>
           map_option u_cart (findOne (\<lambda>u. u_id u = uid) (users d')) =
             map_option (\<lambda>u. []) (findOne (\<lambda>u. u_id u = uid) (users d))"
proof -
  from assms obtain its ship t ls uid where
    its: "items body = Some its" and
    v: "validateItems (books d) its 0 [] = Inr (t, ls)" and
    uid: "new_ObjectId (c_userId usr) = Some uid" and
    d': "d' = \<lparr>users = updateOne (\<lambda>u. u_id u = uid) (\<lambda>u. u\<lparr>u_cart := []\<rparr>) (users d),
           books = decrementStock (books d) ls, categories = categories d,
           orders = orders d @ [order_document e d uid ls t body ship]\<rparr>"
    by (rule createOrder_success)
  from validateItems_lines[OF v] have l: "list_all2 (line_of (books d)) its ls" by auto
  have stock: "map_option b_stock (findOne (\<lambda>b. b_id b = n) (books d')) =
                map_option (\<lambda>b. b_stock b - requestedQuantity n its)
                  (findOne (\<lambda>b. b_id b = n) (books d))" for n
    by (simp add: d' decrementStock_stock requested_lines[OF l])
  have named: "\<exists>n b. item_book it = Some n \<and> findOne (\<lambda>b. b_id b = n) (books d) = Some b"
    if "it \<in> set its" for it
  proof -
    from l that obtain l' where "line_of (books d) it l'"
      by (auto simp: list_all2_conv_all_nth in_set_conv_nth)
    then show ?thesis by (auto simp: line_of_def)
  qed
  have cleared: "map_option u_cart (findOne (\<lambda>u. u_id u = uid) (users d')) =
             map_option (\<lambda>u. []) (findOne (\<lambda>u. u_id u = uid) (users d))"
    by (simp add: d' findOne_updateOne_id[where key=u_id] option.map_comp comp_def)
  from its uid stock named cleared show ?thesis by blast
qed

text \<open>After the order of two copies, Dune's stock is 3 instead of 5, the stock of Emma is
  still 2, and the cart of a user who had Dune in it is empty.\<close>

theorem createOrder_stock_and_cart_witness:
  "\<not> isl (snd (createOrder sample_env cart_db alice_claims two_dunes)) \<and>
   map_option b_stock (findOne (\<lambda>b. b_id b = 10) (books cart_db)) = Some 5 \<and>
   map_option b_stock (findOne (\<lambda>b. b_id b = 10)
     (books (fst (createOrder sample_env cart_db alice_claims two_dunes)))) = Some 3 \<and>
   map_option b_stock (findOne (\<lambda>b. b_id b = 11)
     (books (fst (createOrder sample_env cart_db alice_claims two_dunes)))) = Some 2 \<and>
   map_option u_cart (findOne (\<lambda>u. u_id u = 1) (users cart_db)) = Some [dune_cartline] \<and>
   map_option u_cart (findOne (\<lambda>u. u_id u = 1)
     (users (fst (createOrder sample_env cart_db alice_claims two_dunes)))) = Some []"
proof -
  have run: "createOrder sample_env cart_db alice_claims two_dunes =
     (fst (createOrder sample_env cart_db alice_claims two_dunes),
      Inr (projr (snd (createOrder sample_env cart_db alice_claims two_dunes))))"
    by (simp add: createOrder_def Order_create_def Let_def sample_defs)
  from createOrder_stock_and_cart[OF run]
  show ?thesis
    by (simp add: createOrder_def Order_create_def Let_def sample_defs requestedQuantity_def)
qed

subsection \<open>Insufficient stock\<close>

lemma validateItems_in_stock:
  assumes "validateItems bs its t acc = Inr res" and "it \<in> set its"
    and "item_book it = Some n" and "findOne (\<lambda>b. b_id b = n) bs = Some b"
  shows "quantity it \<le> b_stock b"
proof -
  obtain t' ls where "res = (t', ls)" by (cases res)
  with assms(1) obtain new where "list_all2 (line_of bs) its new"
    using validateItems_lines by blast
  with assms(2) obtain l where "line_of bs it l"
    by (auto simp: list_all2_conv_all_nth in_set_conv_nth)
  with assms(3,4) show ?thesis by (auto simp: line_of_def)
qed

text \<open>
  Claim C3, as the code has it. If an item of the request asks for more than the stock of the
  book it names, \<open>createOrder\<close> fails and returns the store as it was: no order is inserted,
  no stock and no cart is changed. The failure is InvalidArgument with the stock message of
  that book (its title, its stock and the requested quantity) when the shipping address and
  the payment method are present, the quantity is positive and every earlier item passes
  validation; otherwise the failure is the one of the earlier check.
\<close>

theorem createOrder_insufficient_stock:
  assumes "items body = Some its" and "it \<in> set its" and "item_book it = Some n"
    and "findOne (\<lambda>b. b_id b = n) (books d) = Some b" and "b_stock b < quantity it"
  shows "(\<exists>f. createOrder e d usr body = (d, Inl f)) \<and>
         (its = pre @ it # post \<and> validateItems (books d) pre 0 [] = Inr (t, ls) \<and>
          0 < quantity it \<and> shippingAddress body = Some ship \<and> address ship \<noteq> [] \<and>
          city ship \<noteq> [] \<and> paymentMethod body \<noteq> [] \<longrightarrow>
          createOrder e d usr body =
            (d, Inl (fail InvalidArgument (stock_message b (quantity it)))))"
proof
  show "\<exists>f. createOrder e d usr body = (d, Inl f)"
  proof (cases "validateItems (books d) its 0 []")
    case (Inl f)
    then show ?thesis using assms(1) by (rule createOrder_failure)
  next
    case (Inr res)
    from validateItems_in_stock[OF Inr assms(2,3,4)] assms(5) show ?thesis by simp
  qed
next
  show "its = pre @ it # post \<and> validateItems (books d) pre 0 [] = Inr (t, ls) \<and>
          0 < quantity it \<and> shippingAddress body = Some ship \<and> address ship \<noteq> [] \<and>
          city ship \<noteq> [] \<and> paymentMethod body \<noteq> [] \<longrightarrow>
          createOrder e d usr body =
            (d, Inl (fail InvalidArgument (stock_message b (quantity it))))"
  proof (intro impI, elim conjE)
    assume split: "its = pre @ it # post"
      and pre: "validateItems (books d) pre 0 [] = Inr (t, ls)"
      and q: "0 < quantity it"
      and ship: "shippingAddress body = Some ship" "address ship \<noteq> []" "city ship \<noteq> []"
        "paymentMethod body \<noteq> []"
    from assms(3) obtain raw where raw: "bookId it = Some raw" "new_ObjectId raw = Some n"
      by (auto simp: item_book_def split: option.splits)
    have tr: "truthy_id (Some raw)" by (rule new_ObjectId_truthy[OF raw(2)])
    have "validateItems (books d) (it # post) t ls =
            Inl (fail InvalidArgument (stock_message b (quantity it)))"
      using raw tr assms(4,5) q by simp
    then have "validateItems (books d) its 0 [] =
            Inl (fail InvalidArgument (stock_message b (quantity it)))"
      by (simp only: split validateItems_append pre sum.case prod.case)
    then show "createOrder e d usr body =
            (d, Inl (fail InvalidArgument (stock_message b (quantity it))))"
      using assms(1) ship split by (simp add: createOrder_def)
  qed
qed

text \<open>Alice asks for six copies of Dune, of which there are five.\<close>

theorem createOrder_insufficient_stock_witness:
  "createOrder sample_env sample_db alice_claims six_dunes =
     (sample_db, Inl (fail InvalidArgument
        (''Insufficient stock for '' @ [CHR 0x22] @ ''Dune'' @ [CHR 0x22] @
         ''. Available: 5, Requested: 6'')))"
proof -
  have "items six_dunes = Some [\<lparr>bookId = Some (Oid 10), quantity = 6\<rparr>]"
    and "\<lparr>bookId = Some (Oid 10), quantity = 6\<rparr> \<in> set [\<lparr>bookId = Some (Oid 10), quantity = 6\<rparr>]"
    and "item_book \<lparr>bookId = Some (Oid 10), quantity = 6\<rparr> = Some 10"
    and "findOne (\<lambda>b. b_id b = 10) (books sample_db) = Some dune"
    and "b_stock dune < quantity \<lparr>bookId = Some (Oid 10), quantity = 6\<rparr>"
    by (simp_all add: sample_defs item_book_def)
  from createOrder_insufficient_stock[OF this, of sample_env alice_claims "[]" "[]" 0 "[]" home]
  show ?thesis
    by (simp add: sample_defs stock_message_def show_int_def show_nat.simps digit_char_def)
qed

lemma hex_digits_99: "hex_digits 24 99 = ''000000000000000000000063''"
  by code_simp

text \<open>
  The claim as it was stated names InvalidArgument for every request with an overdrawn item.
  Here the second item overdraws Dune (6 of 5), and the answer is NotFound, for the first item.
\<close>

theorem createOrder_insufficient_stock_counterexample:
  "items ghost_then_six_dunes =
     Some [\<lparr>bookId = Some (Oid 99), quantity = 1\<rparr>, \<lparr>bookId = Some (Oid 10), quantity = 6\<rparr>] \<and>
   books sample_db = [dune, emma] \<and> b_id dune = 10 \<and> b_stock dune = 5 \<and>
   createOrder sample_env sample_db alice_claims ghost_then_six_dunes =
     (sample_db, Inl (fail NotFound ''Book with ID 000000000000000000000063 not found'')) \<and>
   NotFound \<noteq> InvalidArgument"
  by (simp add: createOrder_def sample_defs hex_digits_99)

section \<open>The cart\<close>

lemma titles_quantity_update:
  "i < length c \<Longrightarrow> map cl_title (c[i := (c ! i)\<lparr>cl_quantity := q\<rparr>]) = map cl_title c"
  by (simp add: map_update list_update_same_conv)

lemma distinct_titles_splice:
  assumes "distinct (map cl_title c)"
  shows "distinct (map cl_title (take i c @ drop (Suc i) c))"
proof -
  have "map cl_title (take i c @ drop (Suc i) c) =
        take i (map cl_title c) @ drop (Suc i) (map cl_title c)"
    by (simp add: take_map drop_map)
  moreover have "distinct (take i ys @ drop (Suc i) ys)" if "distinct ys" for ys :: "string list"
    using that
    by (metis distinct_append distinct_drop distinct_take le_SucI le_refl
        set_take_disj_set_drop_if_distinct)
  ultimately show ?thesis using assms by simp
qed

lemma distinct_titles_snoc:
  "distinct (map cl_title c) \<Longrightarrow> findIndex (\<lambda>item. cl_title item = t) c = None \<Longrightarrow>
   cl_title l = t \<Longrightarrow> distinct (map cl_title (c @ [l]))"
  by (auto dest: findIndex_NoneD)

lemma cart_inv_updateCart:
  assumes "cart_inv d" "distinct (map cl_title c)" "User_updateCart d i c = Some d'"
  shows "cart_inv d'"
proof -
  from assms(3) obtain n where
    d': "d' = d\<lparr>users := updateOne (\<lambda>u. u_id u = n) (\<lambda>u. u\<lparr>u_cart := c\<rparr>) (users d)\<rparr>"
    by (auto simp: User_updateCart_def)
  have "list_all (\<lambda>u. distinct (map cl_title (u_cart u)))
          (updateOne (\<lambda>u. u_id u = n) (\<lambda>u. u\<lparr>u_cart := c\<rparr>) (users d))"
    by (rule list_all_updateOne) (use assms in \<open>simp_all add: cart_inv_def\<close>)
  then show ?thesis by (simp add: d' cart_inv_def)
qed

lemma cart_inv_found:
  "cart_inv d \<Longrightarrow> User_findById d i = Some (Some u) \<Longrightarrow> distinct (map cl_title (u_cart u))"
  by (auto simp: cart_inv_def User_findById_def list_all_iff dest: findOne_SomeD)

lemma cart_store_inv:
  "cart_inv d \<Longrightarrow> distinct (map cl_title c) \<Longrightarrow>
   cart_inv (fst (case User_updateCart d i c of None \<Rightarrow> (d, X) | Some d' \<Rightarrow> (d', Y d')))"
  by (auto split: option.splits dest: cart_inv_updateCart)

lemma cart_add_inv:
  assumes inv: "cart_inv d"
  shows "cart_inv (fst (cart_add e d usr b))"
proof (cases "User_findById d (c_userId usr)")
  case None
  then show ?thesis using inv by (simp add: cart_add_def)
next
  case (Some found)
  show ?thesis
  proof (cases found)
    case None
    with Some show ?thesis using inv by (simp add: cart_add_def)
  next
    case (Some u)
    with \<open>User_findById d (c_userId usr) = Some found\<close>
    have f: "User_findById d (c_userId usr) = Some (Some u)" by simp
    have du: "distinct (map cl_title (u_cart u))" by (rule cart_inv_found[OF inv f])
    show ?thesis
    proof (cases "findIndex (\<lambda>item. cl_title item = ab_title b) (u_cart u)")
      case None
      have "distinct (map cl_title (u_cart u @ [l]))" if "cl_title l = ab_title b" for l
        by (rule distinct_titles_snoc[OF du None that])
      then show ?thesis using inv f None
        by (simp add: cart_add_def Let_def cart_store_inv del: distinct_append map_append)
    next
      case (Some i)
      then have "i < length (u_cart u)" by (simp add: findIndex_SomeD)
      then have "distinct (map cl_title ((u_cart u)[i := (u_cart u ! i)\<lparr>cl_quantity := q\<rparr>]))"
        for q using du by (simp add: titles_quantity_update)
      then show ?thesis using inv f Some
        by (simp add: cart_add_def Let_def cart_store_inv)
    qed
  qed
qed

lemma cart_update_inv:
  assumes inv: "cart_inv d"
  shows "cart_inv (fst (cart_update d usr t q))"
proof (cases "User_findById d (c_userId usr)")
  case None
  then show ?thesis using inv by (simp add: cart_update_def)
next
  case (Some found)
  show ?thesis
  proof (cases found)
    case None
    with Some show ?thesis using inv by (simp add: cart_update_def)
  next
    case (Some u)
    with \<open>User_findById d (c_userId usr) = Some found\<close>
    have f: "User_findById d (c_userId usr) = Some (Some u)" by simp
    have du: "distinct (map cl_title (u_cart u))" by (rule cart_inv_found[OF inv f])
    show ?thesis
    proof (cases "findIndex (\<lambda>item. cl_title item = t) (u_cart u)")
      case None
      then show ?thesis using inv f by (simp add: cart_update_def)
    next
      case (Some i)
      then have "i < length (u_cart u)" by (simp add: findIndex_SomeD)
      then have "distinct (map cl_title ((u_cart u)[i := (u_cart u ! i)\<lparr>cl_quantity := q\<rparr>]))"
        using du by (simp add: titles_quantity_update)
      moreover have "distinct (map cl_title (take i (u_cart u) @ drop (Suc i) (u_cart u)))"
        by (rule distinct_titles_splice[OF du])
      ultimately show ?thesis using inv f Some
        by (simp add: cart_update_def Let_def cart_store_inv del: distinct_append map_append)
    qed
  qed
qed

lemma cart_remove_inv:
  assumes inv: "cart_inv d"
  shows "cart_inv (fst (cart_remove d usr t))"
proof (cases "User_findById d (c_userId usr)")
  case None
  then show ?thesis using inv by (simp add: cart_remove_def)
next
  case (Some found)
  show ?thesis
  proof (cases found)
    case None
    with Some show ?thesis using inv by (simp add: cart_remove_def)
  next
    case (Some u)
    with \<open>User_findById d (c_userId usr) = Some found\<close>
    have f: "User_findById d (c_userId usr) = Some (Some u)" by simp
    have "distinct (map cl_title (filter (\<lambda>item. cl_title item \<noteq> t) (u_cart u)))"
      using cart_inv_found[OF inv f] by (simp add: distinct_map_filter)
    then show ?thesis using inv f
      by (simp add: cart_remove_def Let_def cart_store_inv)
  qed
qed

lemma cart_clear_inv: "cart_inv d \<Longrightarrow> cart_inv (fst (cart_clear d usr))"
  by (simp add: cart_clear_def cart_store_inv)

lemma cart_add_existing:
  assumes inv: "cart_inv d" and f: "User_findById d (c_userId usr) = Some (Some u)"
    and l: "l \<in> set (u_cart u)" "cl_title l = ab_title b"
    and ok: "ab_title b \<noteq> []" "ab_author b \<noteq> []" "ab_price b \<noteq> 0"
  shows "\<exists>i < length (u_cart u). u_cart u ! i = l \<and>
           snd (cart_add e d usr b) =
             Inr \<lparr>message = ''Item added to cart'',
                  cart = (u_cart u)[i := l\<lparr>cl_quantity := cl_quantity l + 1\<rparr>]\<rparr> \<and>
           User_findById (fst (cart_add e d usr b)) (c_userId usr) =
             Some (Some (u\<lparr>u_cart := (u_cart u)[i := l\<lparr>cl_quantity := cl_quantity l + 1\<rparr>]\<rparr>))"
proof -
  have du: "distinct (map cl_title (u_cart u))" by (rule cart_inv_found[OF inv f])
  from l obtain i where i: "findIndex (\<lambda>item. cl_title item = ab_title b) (u_cart u) = Some i"
    using findIndex_ex[of l "u_cart u" "\<lambda>item. cl_title item = ab_title b"] by auto
  then have il: "i < length (u_cart u)" and it: "cl_title (u_cart u ! i) = ab_title b"
    using findIndex_SomeD[OF i] by auto
  from l(1) obtain j where j: "j < length (u_cart u)" "u_cart u ! j = l"
    by (auto simp: in_set_conv_nth)
  have "map cl_title (u_cart u) ! i = map cl_title (u_cart u) ! j"
    using il j it l(2) by simp
  moreover have "i < length (map cl_title (u_cart u))" "j < length (map cl_title (u_cart u))"
    using il j by simp_all
  ultimately have "i = j" using du by (simp only: nth_eq_iff_index_eq)
  with j have at: "u_cart u ! i = l" by simp
  from f obtain n where n: "new_ObjectId (c_userId usr) = Some n"
    and fu: "findOne (\<lambda>x. u_id x = n) (users d) = Some u"
    by (auto simp: User_findById_def)
  let ?c = "(u_cart u)[i := l\<lparr>cl_quantity := cl_quantity l + 1\<rparr>]"
  have run: "cart_add e d usr b =
      (d\<lparr>users := updateOne (\<lambda>x. u_id x = n) (\<lambda>x. x\<lparr>u_cart := ?c\<rparr>) (users d)\<rparr>,
       Inr \<lparr>message = ''Item added to cart'', cart = ?c\<rparr>)"
    using f i ok at n by (simp add: cart_add_def Let_def User_updateCart_def)
  have "User_findById (fst (cart_add e d usr b)) (c_userId usr) = Some (Some (u\<lparr>u_cart := ?c\<rparr>))"
    by (simp add: run User_findById_def n findOne_updateOne_id[where key=u_id] fu)
  with run il at show ?thesis by auto
qed

text \<open>
  Claim C9. Every cart operation (add, update, remove, clear) keeps the invariant that no
  cart has two lines with one title. Adding an item whose title is already in the cart
  replaces that line by the same line with its quantity increased by 1: the cart keeps its
  length, the line keeps its price, and this is the cart that is stored and returned.
\<close>

theorem cart_one_line_per_title:
  assumes "cart_inv d"
  shows "cart_inv (fst (cart_add e d usr b)) \<and>
         cart_inv (fst (cart_update d usr t q)) \<and>
         cart_inv (fst (cart_remove d usr t)) \<and>
         cart_inv (fst (cart_clear d usr)) \<and>
         (User_findById d (c_userId usr) = Some (Some u) \<and> l \<in> set (u_cart u) \<and>
          cl_title l = ab_title b \<and> ab_title b \<noteq> [] \<and> ab_author b \<noteq> [] \<and> ab_price b \<noteq> 0 \<longrightarrow>
          (\<exists>i < length (u_cart u). u_cart u ! i = l \<and>
             snd (cart_add e d usr b) =
               Inr \<lparr>message = ''Item added to cart'',
                    cart = (u_cart u)[i := l\<lparr>cl_quantity := cl_quantity l + 1\<rparr>]\<rparr> \<and>
             User_findById (fst (cart_add e d usr b)) (c_userId usr) =
               Some (Some (u\<lparr>u_cart := (u_cart u)[i := l\<lparr>cl_quantity := cl_quantity l + 1\<rparr>]\<rparr>))))"
proof (intro conjI impI)
  show "cart_inv (fst (cart_add e d usr b))" by (rule cart_add_inv[OF assms])
  show "cart_inv (fst (cart_update d usr t q))" by (rule cart_update_inv[OF assms])
  show "cart_inv (fst (cart_remove d usr t))" by (rule cart_remove_inv[OF assms])
  show "cart_inv (fst (cart_clear d usr))" by (rule cart_clear_inv[OF assms])
next
  assume "User_findById d (c_userId usr) = Some (Some u) \<and> l \<in> set (u_cart u) \<and>
          cl_title l = ab_title b \<and> ab_title b \<noteq> [] \<and> ab_author b \<noteq> [] \<and> ab_price b \<noteq> 0"
  then show "\<exists>i < length (u_cart u). u_cart u ! i = l \<and>
             snd (cart_add e d usr b) =
               Inr \<lparr>message = ''Item added to cart'',
                    cart = (u_cart u)[i := l\<lparr>cl_quantity := cl_quantity l + 1\<rparr>]\<rparr> \<and>
             User_findById (fst (cart_add e d usr b)) (c_userId usr) =
               Some (Some (u\<lparr>u_cart := (u_cart u)[i := l\<lparr>cl_quantity := cl_quantity l + 1\<rparr>]\<rparr>))"
    using cart_add_existing[OF assms, of usr u l b e] by blast
qed

text \<open>Alice has Dune in her cart, added at 400; she adds it again when it costs 450.\<close>

theorem cart_one_line_per_title_witness:
  "cart_inv cart_db \<and>
   cart_inv (fst (cart_add sample_env cart_db alice_claims add_dune)) \<and>
   snd (cart_add sample_env cart_db alice_claims add_dune) =
     Inr \<lparr>message = ''Item added to cart'', cart = [dune_cartline\<lparr>cl_quantity := 2\<rparr>]\<rparr> \<and>
   cl_price (dune_cartline\<lparr>cl_quantity := 2\<rparr>) = 400 \<and> ab_price add_dune = 450"
proof -
  have inv: "cart_inv cart_db"
    by (simp add: cart_inv_def sample_defs)
  from cart_one_line_per_title[OF inv, of sample_env alice_claims add_dune]
  show ?thesis
    using inv by (simp add: cart_add_def User_findById_def User_updateCart_def Let_def sample_defs)
qed

section \<open>Deleting a category\<close>

lemma updateMany_none:
  "countDocuments p xs = 0 \<Longrightarrow> updateMany p f xs = xs"
  by (induction xs) (auto simp: countDocuments_def updateMany_def split: if_splits)

lemma ObjectId_isValid_parsed: "new_ObjectId v = Some n \<Longrightarrow> ObjectId_isValid v"
  by (simp add: ObjectId_isValid_def)

text \<open>When every dependent book stores the string of the request, the books that the query
  of the handler matches are the dependent books.\<close>

lemma matched_is_dependent:
  assumes "new_ObjectId (Str s) = Some n"
    and "\<forall>b \<in> set (books d). refers_to (b_category b) n \<longrightarrow> b_category b = Some (Str s)"
    and "b \<in> set (books d)"
  shows "b_category b = Some (Str s) \<longleftrightarrow> refers_to (b_category b) n"
proof
  assume "b_category b = Some (Str s)"
  with assms(1) show "refers_to (b_category b) n" by (simp add: refers_to_def)
next
  assume "refers_to (b_category b) n"
  with assms(2,3) show "b_category b = Some (Str s)" by blast
qed

lemma countBooks_dependent:
  assumes "new_ObjectId (Str s) = Some n"
    and "\<forall>b \<in> set (books d). refers_to (b_category b) n \<longrightarrow> b_category b = Some (Str s)"
  shows "countBooks d (Str s) = length (dependentBooks d n)"
proof -
  have "filter (\<lambda>b. b_category b = Some (Str s)) (books d) =
        filter (\<lambda>b. refers_to (b_category b) n) (books d)"
    by (rule filter_cong[OF refl]) (rule matched_is_dependent[OF assms])
  then show ?thesis by (simp add: countBooks_def countDocuments_def dependentBooks_def)
qed

lemma updateMany_dependent:
  assumes "new_ObjectId (Str s) = Some n"
    and "\<forall>b \<in> set (books d). refers_to (b_category b) n \<longrightarrow> b_category b = Some (Str s)"
  shows "updateMany (\<lambda>b. b_category b = Some (Str s)) f (books d) =
         map (\<lambda>b. if refers_to (b_category b) n then f b else b) (books d)"
  unfolding updateMany_def
  by (rule map_cong[OF refl]) (simp add: matched_is_dependent[OF assms])

lemma deleteCategory_forced:
  assumes "new_ObjectId (Str s) = Some n"
    and "findOne (\<lambda>c. cat_id c = n) (categories d) = Some c"
  shows "deleteCategory d (Str s) (Some ''true'') =
     (d\<lparr>categories := deleteOne (\<lambda>c. cat_id c = n) (categories d),
        books := updateMany (\<lambda>b. b_category b = Some (Str s)) (\<lambda>b. b\<lparr>b_category := None\<rparr>)
                   (books d)\<rparr>,
      Inr ''Category deleted successfully'')"
proof -
  have len: "length (categories d) - length (deleteOne (\<lambda>c. cat_id c = n) (categories d)) \<noteq> 0"
    using length_deleteOne[OF assms(2)] by simp
  have valid: "ObjectId_isValid (Str s)" by (rule ObjectId_isValid_parsed[OF assms(1)])
  show ?thesis
  proof (cases "countBooks d (Str s) = 0")
    case True
    then have "updateMany (\<lambda>b. b_category b = Some (Str s)) (\<lambda>b. b\<lparr>b_category := None\<rparr>) (books d)
               = books d"
      by (simp add: countBooks_def updateMany_none)
    with True len valid assms(1) show ?thesis
      by (simp add: deleteCategory_def Let_def del: new_ObjectId.simps)
  next
    case False
    with len valid assms(1) show ?thesis
      by (simp add: deleteCategory_def Let_def del: new_ObjectId.simps)
  qed
qed




subsection \<open>References that the handler does not see\<close>

text \<open>
  The statement above is about books that store the string of the request. A book that the
  seed script inserted stores an ObjectId, which the string query of \<open>countBooks\<close> does not
  match: the category of the seeded Dune is deleted without \<open>force\<close>, and with \<open>force\<close> the
  book keeps its reference. The same holds for a request that spells the identifier in upper
  case, which the driver parses to the same ObjectId.
\<close>

lemma deleteCategory_seeded_reference:
  "length (dependentBooks seeded_db 20) = 1 \<and> countBooks seeded_db (Oid 20) = 0 \<and>
   deleteCategory seeded_db (Oid 20) None =
     (seeded_db\<lparr>categories := []\<rparr>, Inr ''Category deleted successfully'') \<and>
   books (fst (deleteCategory seeded_db (Oid 20) (Some ''true''))) = books seeded_db"
  by (simp add: deleteCategory_def countBooks_def countDocuments_def dependentBooks_def
      refers_to_def Let_def sample_defs) (simp add: Oid_def)

lemma upper_case_identifier:
  "new_ObjectId (Str ''00000000000000000000001A'') = Some 26 \<and>
   new_ObjectId (Oid 26) = Some 26 \<and> Str ''00000000000000000000001A'' \<noteq> Oid 26"
proof (intro conjI)
  show "new_ObjectId (Str ''00000000000000000000001A'') = Some 26"
    by code_simp
  show "new_ObjectId (Oid 26) = Some 26"
    by simp
  have "Oid 26 = Str ''00000000000000000000001a''"
    unfolding Oid_def by code_simp
  then show "Str ''00000000000000000000001A'' \<noteq> Oid 26"
    by simp
qed

lemma deleteCategory_upper_case:
  "length (dependentBooks horror_db 26) = 1 \<and>
   deleteCategory horror_db (Str ''00000000000000000000001A'') None =
     (horror_db\<lparr>categories := [fantasy]\<rparr>, Inr ''Category deleted successfully'')"
proof -
  have up: "new_ObjectId (Str ''00000000000000000000001A'') = Some 26"
    using upper_case_identifier by (rule conjunct1)
  have other: "Oid 26 \<noteq> Str ''00000000000000000000001A''"
    using upper_case_identifier by auto
  have "Oid 20 = Str ''000000000000000000000014''"
    unfolding Oid_def by code_simp
  then have fantasy: "Oid 20 \<noteq> Str ''00000000000000000000001A''"
    by simp
  have parsed: "new_ObjectId (Oid 20) = Some 20" "new_ObjectId (Oid 26) = Some 26"
    by simp_all
  show ?thesis
    using up other fantasy parsed
    by (simp add: deleteCategory_def ObjectId_isValid_def countBooks_def countDocuments_def
        dependentBooks_def refers_to_def Let_def horror_db_def horror_def carrie_def
        sample_defs del: new_ObjectId.simps)
qed

section \<open>Tokens and the admin gate of the order routes\<close>

lemma register_token:
  "register hash e d name email pw = (d1, Inr rep) \<Longrightarrow> c_role (payload (ar_token rep)) = None"
  by (auto simp: register_def jwt_sign_def Let_def split: if_splits option.splits)

lemma login_token:
  "login compare e d email pw = (d1, Inr rep) \<Longrightarrow> c_role (payload (ar_token rep)) = None"
  by (auto simp: login_def jwt_sign_def Let_def split: if_splits option.splits)

lemma requireAdmin_no_role:
  "c_role usr = None \<Longrightarrow> requireAdmin usr = Inl (fail Forbidden ''Admin access required'')"
  by (simp add: requireAdmin_def)

lemma route_getUserOrders_no_role:
  assumes "c_role (payload tok) = None"
  shows "\<exists>f. route_getUserOrders e d (Some tok) uid qp ql = Inl f \<and> code f = Forbidden \<and>
           (jwt_verify e tok \<noteq> None \<longrightarrow> f = fail Forbidden ''Admin access required'')"
proof (cases "jwt_verify e tok")
  case None
  then show ?thesis
    by (simp add: route_getUserOrders_def authenticateToken_def fail_def)
next
  case (Some usr)
  then have "usr = payload tok" by (simp add: jwt_verify_def split: if_splits)
  with assms Some show ?thesis
    by (simp add: route_getUserOrders_def authenticateToken_def requireAdmin_no_role)
      (simp add: fail_def)
qed

lemma route_updateOrder_no_role:
  assumes "c_role (payload tok) = None"
  shows "\<exists>f. route_updateOrder e d (Some tok) i up = (d, Inl f) \<and> code f = Forbidden \<and>
           (jwt_verify e tok \<noteq> None \<longrightarrow> f = fail Forbidden ''Admin access required'')"
proof (cases "jwt_verify e tok")
  case None
  then show ?thesis
    by (simp add: route_updateOrder_def authenticateToken_def fail_def)
next
  case (Some usr)
  then have "usr = payload tok" by (simp add: jwt_verify_def split: if_splits)
  with assms Some show ?thesis
    by (simp add: route_updateOrder_def authenticateToken_def requireAdmin_no_role)
      (simp add: fail_def)
qed

text \<open>
  Claim C10. The token that \<open>register\<close> or \<open>login\<close> issues has no role among its claims.
  Whatever the store holds at the time of the request (the user may be an administrator
  there), a request with such a token to an admin-gated order route (\<open>GET /user/:userId\<close>,
  \<open>PUT /:id\<close>) fails with Forbidden and changes nothing; while the token is accepted by
  \<open>jwt.verify\<close> the failure is the one of \<open>requireAdmin\<close>, "Admin access required".
\<close>

theorem issued_token_admin_routes_forbidden:
  assumes "register hash e d name email pw = (d1, Inr rep) \<or>
           login compare e d email pw = (d1, Inr rep)"
  shows "c_role (payload (ar_token rep)) = None \<and>
         (\<exists>f. route_getUserOrders e' d' (Some (ar_token rep)) uid qp ql = Inl f \<and>
              code f = Forbidden \<and>
              (jwt_verify e' (ar_token rep) \<noteq> None \<longrightarrow>
               f = fail Forbidden ''Admin access required'')) \<and>
         (\<exists>f. route_updateOrder e' d' (Some (ar_token rep)) i up = (d', Inl f) \<and>
              code f = Forbidden \<and>
              (jwt_verify e' (ar_token rep) \<noteq> None \<longrightarrow>
               f = fail Forbidden ''Admin access required''))"
proof -
  from assms have "c_role (payload (ar_token rep)) = None"
    using register_token login_token by blast
  then show ?thesis
    using route_getUserOrders_no_role route_updateOrder_no_role by blast
qed

text \<open>Carol is an administrator in the store; she logs in and asks for Bob's orders, and
  for a change of Bob's order, with the token she was given.\<close>

theorem issued_token_admin_routes_forbidden_witness:
  "\<not> isl (snd (login sample_compare sample_env sample_db ''carol@example.org'' ''carol-pw'')) \<and>
   map_option u_role (findOne (\<lambda>u. u_id u = 3) (users sample_db)) = Some (Some ''admin'') \<and>
   route_getUserOrders sample_env sample_db
     (Some (ar_token (projr (snd (login sample_compare sample_env sample_db
        ''carol@example.org'' ''carol-pw''))))) (Oid 2) None None =
     Inl (fail Forbidden ''Admin access required'') \<and>
   route_updateOrder sample_env sample_db
     (Some (ar_token (projr (snd (login sample_compare sample_env sample_db
        ''carol@example.org'' ''carol-pw'')))))
     (Oid 50) zero_total =
     (sample_db, Inl (fail Forbidden ''Admin access required''))"
proof -
  have run: "login sample_compare sample_env sample_db ''carol@example.org'' ''carol-pw'' =
     (sample_db,
      Inr \<lparr>ar_message = ''Login successful'', ar_id = 3, ar_name = ''Carol'',
           ar_email = ''carol@example.org'', ar_cart = Some [],
           ar_token = jwt_sign sample_env carol_claims\<rparr>)"
    by (simp add: login_def toLowerCase_def lower_char_def Let_def sample_defs)
  have ok: "jwt_verify sample_env (jwt_sign sample_env carol_claims) \<noteq> None"
    by (simp add: jwt_verify_def jwt_sign_def)
  from issued_token_admin_routes_forbidden[OF disjI2, OF run,
      of sample_env sample_db "Oid 2" None None "Oid 50" zero_total]
  show ?thesis
    using ok by (auto simp: run) (simp add: sample_defs)
qed

section \<open>Where the code leaves its own rules\<close>

subsection \<open>Status changes by the owner\<close>

text \<open>
  Claim C4 says that a non-admin owner can only cancel, and only a pending order. The guard
  of \<open>updateOrderStatus\<close> refuses only when the new status is not \<open>cancelled\<close> and the
  order is not pending, so both of the following requests succeed: Bob, who is no
  administrator, cancels his shipped order, and Alice sets her pending order to
  \<open>delivered\<close>. Each appends to the status history.
\<close>

theorem updateOrderStatus_owner_unrestricted:
  "c_role bob_claims \<noteq> Some ''admin'' \<and> Oid (o_userId bob_order) = c_userId bob_claims \<and>
   o_status bob_order = ''shipped'' \<and>
   \<not> isl (snd (updateOrderStatus sample_env sample_db bob_claims (Oid 50) ''cancelled'' [])) \<and>
   map o_status
     (orders (fst (updateOrderStatus sample_env sample_db bob_claims (Oid 50) ''cancelled'' []))) =
     [''cancelled'', ''pending''] \<and>
   map (\<lambda>x. map h_status (o_statusHistory x))
     (orders (fst (updateOrderStatus sample_env sample_db bob_claims (Oid 50) ''cancelled'' []))) =
     [[''pending'', ''shipped'', ''cancelled''], [''pending'']] \<and>
   c_role alice_claims \<noteq> Some ''admin'' \<and> Oid (o_userId alice_order) = c_userId alice_claims \<and>
   o_status alice_order = ''pending'' \<and>
   \<not> isl (snd (updateOrderStatus sample_env sample_db alice_claims (Oid 51) ''delivered'' [])) \<and>
   map o_status
     (orders (fst (updateOrderStatus sample_env sample_db alice_claims (Oid 51) ''delivered'' []))) =
     [''shipped'', ''delivered'']"
  by (simp add: updateOrderStatus_def Order_findById_def Order_updateStatus_def validStatuses_def
      Let_def sample_defs)

subsection \<open>Listing with a foreign user id\<close>

text \<open>
  Claim C5 says that a non-admin sees only their own orders whatever \<open>userId\<close> the query
  holds. The filter of \<open>getAllOrders\<close> falls back to the caller's id only when the query has
  no \<open>userId\<close>: Alice, who is no administrator, asks for Bob's orders and gets them.
\<close>

theorem getAllOrders_foreign_userId:
  "c_role alice_claims \<noteq> Some ''admin'' \<and> c_userId alice_claims = Oid 1 \<and>
   o_userId bob_order = 2 \<and>
   getAllOrders sample_db alice_claims bobs_orders =
     Inr ([new_Order bob_order],
          \<lparr>pg_page = 1, pg_limit = 10, pg_total = 1, pg_pages = Some 1\<rparr>)"
  by (simp add: getAllOrders_def Order_findAll_def matches_def countDocuments_def Let_def
      bobs_orders_def sample_defs)

subsection \<open>The role of the admin gate\<close>

text \<open>
  Claim C6 says that the admin gate reads the role from the user store. The gate of the order
  routes reads it from the token: Carol is an administrator in the store, the gate of
  \<open>middleware/auth.js\<close> would let her pass, and the order route refuses her.
\<close>

theorem requireAdmin_ignores_store:
  "ar_token (projr (snd (login sample_compare sample_env sample_db
      ''carol@example.org'' ''carol-pw''))) = jwt_sign sample_env carol_claims \<and>
   map_option u_role (findOne (\<lambda>u. u_id u = 3) (users sample_db)) = Some (Some ''admin'') \<and>
   middleware_requireAdmin sample_db carol_claims = Inr (carol_claims\<lparr>c_role := Some ''admin''\<rparr>) \<and>
   route_getUserOrders sample_env sample_db (Some (jwt_sign sample_env carol_claims))
     (Oid 2) None None = Inl (fail Forbidden ''Admin access required'')"
  by (simp add: login_def toLowerCase_def lower_char_def middleware_requireAdmin_def
      route_getUserOrders_def authenticateToken_def jwt_verify_def jwt_sign_def requireAdmin_def
      Let_def sample_defs)

subsection \<open>An order from a cart filled by the cart endpoint\<close>

text \<open>
  Claim C7 says that after Dune (stock 5) was added to the cart up to quantity 2,
  \<open>createOrderFromCart\<close> creates the order. The lines that \<open>POST /cart/add\<close> stores have
  neither \<open>bookId\<close> nor \<open>_id\<close>, so the item built from such a line has no book identifier
  and \<open>createOrder\<close> refuses it: no order, the stock is still 5, the cart is still filled.
\<close>

theorem createOrderFromCart_after_cart_add:
  "map_option (\<lambda>u. map (\<lambda>l. (cl_title l, cl_quantity l, cl_bookId l, cl_id l)) (u_cart u))
     (findOne (\<lambda>u. u_id u = 1) (users two_dunes_in_cart)) = Some [(''Dune'', 2, None, None)] \<and>
   map_option b_stock (findOne (\<lambda>b. b_id b = 10) (books two_dunes_in_cart)) = Some 5 \<and>
   createOrderFromCart sample_env two_dunes_in_cart alice_claims (Some home) ''card'' [] =
     (two_dunes_in_cart,
      Inl (fail InvalidArgument ''Each item must have a valid bookId and quantity''))"
proof -
  have d2: "two_dunes_in_cart =
     sample_db\<lparr>users :=
       [alice\<lparr>u_cart := [\<lparr>cl_title = ''Dune'', cl_author = ''Frank Herbert'', cl_price = 450,
          cl_description = None, cl_quantity = 2, cl_addedAt = now sample_env,
          cl_bookId = None, cl_id = None\<rparr>]\<rparr>, bob, carol]\<rparr>"
    by (simp add: two_dunes_in_cart_def cart_add_def User_findById_def User_updateCart_def
        Let_def sample_defs)
  show ?thesis
    unfolding d2
    by (simp add: createOrderFromCart_def createOrder_def or_id_def sample_defs)
qed

end
